theory Spec2Isabelle
  imports Main "HOL-Library.Word" "HOL-Library.AList" "HOL-Library.Multiset"
begin

section \<open>The session registry of rawsocketcore.go\<close>

text \<open>
  The file \<^verbatim>\<open>lib/rawsocketcore.go\<close> holds the registry \<^verbatim>\<open>RawSocketCore\<close>: a map from
  interface names to capture sessions, the operations \<^verbatim>\<open>DialIP\<close>, \<^verbatim>\<open>ListenIP\<close> and
  \<^verbatim>\<open>Close\<close>, and the goroutine \<^verbatim>\<open>handlePcapSessionClose\<close> that removes sessions which
  announce their own closure.

  Sessions are reached through pointers (\<^verbatim>\<open>*pcapSession\<close>), and a caller keeps its pointer
  while the map may be rewritten, so the model has a store of sessions: a list, an address
  being an index, allocation appending to it. Every operation takes the state and returns
  the new one.

  The state also carries a trace: the calls that \<^verbatim>\<open>DialIP\<close>, \<^verbatim>\<open>ListenIP\<close> and
  \<^verbatim>\<open>Close\<close> make, each recorded by the caller in program order, with the two events a
  session adds of its own (a capture handle opened, an address handed to the resolution
  cache). What the reaper goroutine does is applied to the state and not recorded. Log
  output (\<^verbatim>\<open>log.Println\<close>) is left out.
\<close>

subsection \<open>Data\<close>

type_synonym IP = "8 word list"
type_synonym HardwareAddr = "8 word list"
type_synonym IPProtocol = "8 word"
type_synonym Duration = "64 word"
type_synonym addr = nat

text \<open>\<^verbatim>\<open>net.Interface\<close>; the registry reads its \<^verbatim>\<open>Name\<close> only.\<close>

record Interface =
  Index :: int
  Name :: string

text \<open>
  Go errors. \<open>Error m\<close> is an error with message \<open>m\<close>; \<open>Errorf f args\<close> is the value of
  \<^verbatim>\<open>fmt.Errorf(f, args...)\<close>, kept with its format string and arguments instead of the
  rendered message.
\<close>

datatype error = Error string | Errorf string "fmtarg list"
  and fmtarg = ArgIP IP | ArgErr error

text \<open>What can stop a Go function other than returning: a panic, or blocking for ever.\<close>

datatype fault = Panic string | Blocked

text \<open>An unbuffered channel, as far as \<^verbatim>\<open>close\<close> is concerned.\<close>

datatype chan = ChanOpen | ChanClosed

text \<open>
  Modelled from the spec: the type \<^verbatim>\<open>RawIPConn\<close>, which is declared outside
  \<^verbatim>\<open>rawsocketcore.go\<close>. The fields are those of the specification's Raw Flow: local
  address, remote address (a listening flow accepts any remote), protocol, the owning
  session, and the hardware address resolved when the flow was created. \<open>connId\<close> is
  the identity of the object: two calls never return the same \<^verbatim>\<open>*RawIPConn\<close>.
\<close>

datatype remote = AnyRemote | Remote IP

type_synonym connKey = "IP \<times> remote \<times> IPProtocol"

record RawIPConn =
  connId :: nat
  session :: addr
  localAddress :: IP
  remoteAddress :: remote
  protocolIdentifier :: IPProtocol
  dstMAC :: "HardwareAddr option"

text \<open>
  \<^verbatim>\<open>pcapSessionConfig\<close> and \<^verbatim>\<open>pcapSessionParams\<close> as \<^verbatim>\<open>DialIP\<close> and \<^verbatim>\<open>ListenIP\<close> fill
  them (lines 78 to 88 and 123 to 133). The two references \<^verbatim>\<open>pcapSessionCloseSig\<close> and
  \<^verbatim>\<open>arpCache\<close> of the parameters point to the core's own channel and cache; with one
  core in the state they need no field.
\<close>

record pcapSessionConfig =
  conf_arpRequestTimeout :: Duration

record pcapSessionParams =
  key :: string
  iface :: Interface

text \<open>
  Modelled from the spec: the type \<^verbatim>\<open>pcapSession\<close>, which is declared outside
  \<^verbatim>\<open>rawsocketcore.go\<close>. The registry reads \<^verbatim>\<open>ps.params.key\<close> (line 160) and writes
  \<^verbatim>\<open>ps.rawIPConnMap\<close> (line 105); \<open>sessClosed\<close> says that the session has been closed and
  its capture handle released.
\<close>

record pcapSession =
  params :: pcapSessionParams
  config :: pcapSessionConfig
  rawIPConnMap :: "(connKey \<times> RawIPConn) list"
  sessClosed :: bool

text \<open>
  Modelled from the spec: the type \<^verbatim>\<open>ARPCache\<close>, which is declared outside
  \<^verbatim>\<open>rawsocketcore.go\<close>. The registry constructs it with a lifetime for its entries
  (line 34) and closes it (line 190).
\<close>

record ARPCache =
  cacheTimeout :: Duration
  cacheClosed :: bool

record RawSocketCore =
  pcapSessionMap :: "(string \<times> addr) list"
  arpCacheTimeout :: Duration
  arpRequestTimeout :: Duration
  pcapSessionCloseSig :: chan
  arpCache :: ARPCache
  stopChan :: chan
  wg :: int
  isClosed :: bool

datatype event =
    EvGetLocalIP IP
  | EvFindInterfaceByIP IP
  | EvLock
  | EvUnlock
  | EvLoad string
  | EvInsert string addr
  | EvRange "addr list"
  | EvNewPcapSession string
  | EvOpenLive string
  | EvSessionDialIP addr IP IP IPProtocol
  | EvSessionListenIP addr IP IPProtocol
  | EvResolve addr IP
  | EvStore addr connKey nat
  | EvSessionClose addr
  | EvCloseStopChan
  | EvWait
  | EvCloseSessionCloseSig
  | EvARPCacheClose

record state =
  core :: RawSocketCore
  sessions :: "pcapSession list"
  nextConn :: nat
  trace :: "event list"

text \<open>
  The collaborators outside the registry are parameters, functions of their arguments: the
  route resolver behind \<^verbatim>\<open>GetLocalIP\<close> (source address, interface and gateway, the
  gateway \<^verbatim>\<open>nil\<close> for a destination on the link), the local-address lookup behind
  \<^verbatim>\<open>findInterfaceByIP\<close>, the capture primitive (\<open>Some err\<close> when no handle can be opened
  on the interface) and the network's answer to an address resolution request
  (\<open>None\<close> when nothing answers before the request times out). A lookup that returns
  no error returns an interface: \<^verbatim>\<open>iface.Name\<close> at lines 67 and 118 is read without a
  check.

  The order in which \<^verbatim>\<open>range\<close> visits the entries of a Go map is not specified and
  changes from one loop to the next. It is a parameter too: \<open>rangeOrder\<close> gives, for the
  entries of a map, the order in which the loop of line 174 visits them. A runtime's
  order is a permutation of the entries; the model's list order is one among them.
\<close>

record world =
  routeTo :: "IP \<Rightarrow> error + (IP \<times> Interface \<times> IP option)"
  ifaceOfIP :: "IP \<Rightarrow> error + Interface"
  openLive :: "Interface \<Rightarrow> error option"
  arpReply :: "IP \<Rightarrow> HardwareAddr option"
  rangeOrder :: "(string \<times> addr) list \<Rightarrow> (string \<times> addr) list"

subsection \<open>Small steps shared by the operations\<close>

definition emit :: "event \<Rightarrow> state \<Rightarrow> state" where
  "emit e st = st\<lparr>trace := trace st @ [e]\<rparr>"

fun emits :: "event list \<Rightarrow> state \<Rightarrow> state" where
  "emits [] st = st"
| "emits (e # es) st = emits es (emit e st)"

text \<open>The events a run added to the trace.\<close>

definition added :: "state \<Rightarrow> state \<Rightarrow> event list" where
  "added st st' = drop (length (trace st)) (trace st')"

definition GetLocalIP ::
  "world \<Rightarrow> IP \<Rightarrow> state \<Rightarrow> (error + (IP \<times> Interface \<times> IP option)) \<times> state" where
  "GetLocalIP w dstIP st = (routeTo w dstIP, emit (EvGetLocalIP dstIP) st)"

definition findInterfaceByIP :: "world \<Rightarrow> IP \<Rightarrow> state \<Rightarrow> (error + Interface) \<times> state" where
  "findInterfaceByIP w ip st = (ifaceOfIP w ip, emit (EvFindInterfaceByIP ip) st)"

text \<open>
  Lines 73 to 75 and 119 to 121: \<^verbatim>\<open>core.mu.Lock(); ps, exists := core.pcapSessionMap[k];
  core.mu.Unlock()\<close>.
\<close>

definition loadSession :: "string \<Rightarrow> state \<Rightarrow> addr option \<times> state" where
  "loadSession k st =
     (map_of (pcapSessionMap (core st)) k, emits [EvLock, EvLoad k, EvUnlock] st)"

text \<open>
  Lines 95 to 97 and 138 to 140: \<^verbatim>\<open>core.mu.Lock(); core.pcapSessionMap[k] = ps;
  core.mu.Unlock()\<close>. The assignment is unconditional.
\<close>

definition storeSession :: "string \<Rightarrow> addr \<Rightarrow> state \<Rightarrow> state" where
  "storeSession k ps st =
     emit EvUnlock
       ((emits [EvLock, EvInsert k ps] st)
          \<lparr>core := (core st)\<lparr>pcapSessionMap := AList.update k ps (pcapSessionMap (core st))\<rparr>\<rparr>)"

text \<open>An update of the session at an address; no session there, no change.\<close>

definition updSession :: "addr \<Rightarrow> (pcapSession \<Rightarrow> pcapSession) \<Rightarrow> state \<Rightarrow> state" where
  "updSession ps f st =
     (if ps < length (sessions st)
      then st\<lparr>sessions := (sessions st)[ps := f (sessions st ! ps)]\<rparr>
      else st)"

text \<open>
  \<^verbatim>\<open>ps.rawIPConnMap.Store(k, conn)\<close>, a call of the registry into the session's flow
  table: the call is recorded and the entry under the key is replaced.
\<close>

definition Store :: "addr \<Rightarrow> connKey \<Rightarrow> RawIPConn \<Rightarrow> state \<Rightarrow> state" where
  "Store ps k conn st =
     updSession ps (\<lambda>s. s\<lparr>rawIPConnMap := AList.update k conn (rawIPConnMap s)\<rparr>)
       (emit (EvStore ps k (connId conn)) st)"

subsection \<open>The capture session, as far as the registry uses it\<close>

text \<open>
  Modelled from the spec: \<^verbatim>\<open>RawIPConn.getKey\<close>, which is not in
  \<^verbatim>\<open>rawsocketcore.go\<close>. The flow key is the tuple (local address, remote address,
  protocol identifier).
\<close>

definition getKey :: "RawIPConn \<Rightarrow> connKey" where
  "getKey conn = (localAddress conn, remoteAddress conn, protocolIdentifier conn)"

text \<open>
  Modelled from the spec: \<^verbatim>\<open>newPcapSession\<close>, which is not in \<^verbatim>\<open>rawsocketcore.go\<close>.
  It opens the capture handle of the interface; when that fails the error is returned and
  no session exists; otherwise a new session with an empty flow table is allocated.
\<close>

definition newPcapSession ::
  "world \<Rightarrow> pcapSessionParams \<Rightarrow> pcapSessionConfig \<Rightarrow> state \<Rightarrow> (error + addr) \<times> state" where
  "newPcapSession w ps_params conf st =
     (case openLive w (iface ps_params) of
        Some err \<Rightarrow> (Inl err, st)
      | None \<Rightarrow>
          (Inr (length (sessions st)),
           (emit (EvOpenLive (key ps_params)) st)
             \<lparr>sessions := sessions st @
                [\<lparr>params = ps_params, config = conf, rawIPConnMap = [], sessClosed = False\<rparr>]\<rparr>))"

text \<open>
  Modelled from the spec: the next hop of \<^verbatim>\<open>pcapSession.dialIP\<close>, which is not in
  \<^verbatim>\<open>rawsocketcore.go\<close>. If a gateway address was supplied by the route collaborator
  for the destination, the gateway's hardware address is resolved, else the
  destination's. The call of line 100 hands the session the source, the destination and
  the protocol, so the gateway is read from the route collaborator here.
\<close>

definition nextHopIP :: "world \<Rightarrow> IP \<Rightarrow> IP" where
  "nextHopIP w dstIP =
     (case routeTo w dstIP of
        Inl err \<Rightarrow> dstIP
      | Inr (s, ifc, gatewayIP) \<Rightarrow> (case gatewayIP of None \<Rightarrow> dstIP | Some gw \<Rightarrow> gw))"

text \<open>
  Modelled from the spec: \<^verbatim>\<open>pcapSession.dialIP\<close>, which is not in
  \<^verbatim>\<open>rawsocketcore.go\<close>. It resolves the next hop through the resolution cache; on a
  timeout it returns \<^verbatim>\<open>AddressResolutionTimeout\<close>; otherwise it constructs a flow keyed
  by (source address, destination address, protocol) and returns it. It does not
  register the flow.
\<close>

definition ps_dialIP ::
  "world \<Rightarrow> addr \<Rightarrow> IP \<Rightarrow> IP \<Rightarrow> IPProtocol \<Rightarrow> state \<Rightarrow> (error + RawIPConn) \<times> state" where
  "ps_dialIP w ps srcIP dstIP protocol st =
     (case arpReply w (nextHopIP w dstIP) of
        None \<Rightarrow> (Inl (Error ''AddressResolutionTimeout''), emit (EvResolve ps (nextHopIP w dstIP)) st)
      | Some mac \<Rightarrow>
          (Inr \<lparr>connId = nextConn st, session = ps, localAddress = srcIP,
                remoteAddress = Remote dstIP, protocolIdentifier = protocol,
                dstMAC = Some mac\<rparr>,
           (emit (EvResolve ps (nextHopIP w dstIP)) st)\<lparr>nextConn := Suc (nextConn st)\<rparr>))"

text \<open>
  Modelled from the spec: \<^verbatim>\<open>pcapSession.listenIP\<close>, which is not in
  \<^verbatim>\<open>rawsocketcore.go\<close>. It constructs a flow keyed by (local address, any remote,
  protocol) and registers it in the session's flow table.
\<close>

definition ps_listenIP ::
  "addr \<Rightarrow> IP \<Rightarrow> IPProtocol \<Rightarrow> state \<Rightarrow> (error + RawIPConn) \<times> state" where
  "ps_listenIP ps ip protocol st =
     (Inr \<lparr>connId = nextConn st, session = ps, localAddress = ip,
           remoteAddress = AnyRemote, protocolIdentifier = protocol, dstMAC = None\<rparr>,
      updSession ps
        (\<lambda>s. s\<lparr>rawIPConnMap :=
                 AList.update (ip, AnyRemote, protocol)
                   \<lparr>connId = nextConn st, session = ps, localAddress = ip,
                    remoteAddress = AnyRemote, protocolIdentifier = protocol, dstMAC = None\<rparr>
                   (rawIPConnMap s)\<rparr>)
        (st\<lparr>nextConn := Suc (nextConn st)\<rparr>))"

subsection \<open>The reaper goroutine\<close>

text \<open>
  \<^verbatim>\<open>handlePcapSessionClose\<close>, lines 151 to 164, one \<^verbatim>\<open>select\<close> at a time. A session
  received on \<^verbatim>\<open>pcapSessionCloseSig\<close> has its key deleted from the map, whatever session
  the map holds under that key. When \<^verbatim>\<open>stopChan\<close> is closed the goroutine returns and
  its deferred \<^verbatim>\<open>wg.Done()\<close> runs. The wait group counts this goroutine and nothing
  else (lines 39 and 152).
\<close>

datatype signal = SessionClosed addr | Stop

definition handlePcapSessionClose :: "signal \<Rightarrow> state \<Rightarrow> state" where
  "handlePcapSessionClose sig st =
     (case sig of
        Stop \<Rightarrow> st\<lparr>core := (core st)\<lparr>wg := wg (core st) - 1\<rparr>\<rparr>
      | SessionClosed ps \<Rightarrow>
          (if ps < length (sessions st)
           then st\<lparr>core := (core st)
                  \<lparr>pcapSessionMap :=
                     AList.delete (key (params (sessions st ! ps))) (pcapSessionMap (core st))\<rparr>\<rparr>
           else st))"

text \<open>
  Modelled from the spec: the closed-event of a session, which \<^verbatim>\<open>rawsocketcore.go\<close>
  only receives (line 158). It is a send on \<^verbatim>\<open>pcapSessionCloseSig\<close>, which
  \<^verbatim>\<open>NewRawSocketCore\<close> makes unbuffered: it panics on a closed channel, blocks when the
  reaper has returned, and otherwise hands the session to the reaper.
\<close>

definition sendCloseSig :: "addr \<Rightarrow> state \<Rightarrow> fault + state" where
  "sendCloseSig ps st =
     (if pcapSessionCloseSig (core st) = ChanClosed then Inl (Panic ''send on closed channel'')
      else if stopChan (core st) = ChanClosed then Inl Blocked
      else Inr (handlePcapSessionClose (SessionClosed ps) st))"

text \<open>
  Modelled from the spec: \<^verbatim>\<open>pcapSession.close\<close>, which is not in \<^verbatim>\<open>rawsocketcore.go\<close>.
  It is idempotent; it releases the capture handle, the reader exits, marks the session
  closed and emits one closed-event to the registry's close signal. The inboxes of the
  session's flows, which the reader invalidates, are not part of the state.
\<close>

definition ps_close :: "addr \<Rightarrow> state \<Rightarrow> fault + state" where
  "ps_close ps st =
     (if ps < length (sessions st)
      then (if sessClosed (sessions st ! ps) then Inr st
            else sendCloseSig ps (updSession ps (\<lambda>s. s\<lparr>sessClosed := True\<rparr>) st))
      else Inl (Panic ''invalid memory address or nil pointer dereference''))"

subsection \<open>NewRawSocketCore\<close>

text \<open>
  Lines 28 to 43. The two \<^verbatim>\<open>int\<close> arguments are seconds; \<^verbatim>\<open>time.Duration(n) *
  time.Second\<close> is a product of 64-bit integers, which wraps. The reaper is started, with
  the wait group at one.
\<close>

definition NewRawSocketCore :: "64 word \<Rightarrow> 64 word \<Rightarrow> state" where
  "NewRawSocketCore cacheSeconds requestSeconds =
     \<lparr>core =
        \<lparr>pcapSessionMap = [],
         arpCacheTimeout = cacheSeconds * 1000000000,
         arpRequestTimeout = requestSeconds * 1000000000,
         pcapSessionCloseSig = ChanOpen,
         arpCache = \<lparr>cacheTimeout = cacheSeconds * 1000000000, cacheClosed = False\<rparr>,
         stopChan = ChanOpen,
         wg = 1,
         isClosed = False\<rparr>,
      sessions = [], nextConn = 0, trace = []\<rparr>"

subsection \<open>DialIP\<close>

text \<open>
  Lines 52 to 65: the source address and the interface. Without a source address the
  route resolver gives source, interface and gateway; with one, the interface is looked
  up by address and the gateway stays \<^verbatim>\<open>nil\<close>.
\<close>

definition DialIP_local ::
  "world \<Rightarrow> IP option \<Rightarrow> IP \<Rightarrow> state \<Rightarrow> (error + (IP \<times> Interface \<times> IP option)) \<times> state" where
  "DialIP_local w srcIP dstIP st =
     (case srcIP of
        None \<Rightarrow> GetLocalIP w dstIP st
      | Some src \<Rightarrow>
          (case findInterfaceByIP w src st of
             (Inl err, st1) \<Rightarrow>
               (Inl (Errorf ''provided srcIP %v is not a local IP: %v'' [ArgIP src, ArgErr err]),
                st1)
           | (Inr ifc, st1) \<Rightarrow> (Inr (src, ifc, None), st1)))"

text \<open>
  Lines 100 to 107: the session's dial, and on success the store of the connection in the
  session's flow table under the connection's key.
\<close>

definition DialIP_conn ::
  "world \<Rightarrow> addr \<Rightarrow> IP \<Rightarrow> IP \<Rightarrow> IPProtocol \<Rightarrow> state \<Rightarrow> (error + RawIPConn) \<times> state" where
  "DialIP_conn w ps srcIP dstIP protocol st =
     (case ps_dialIP w ps srcIP dstIP protocol (emit (EvSessionDialIP ps srcIP dstIP protocol) st) of
        (Inl err, st1) \<Rightarrow> (Inl err, st1)
      | (Inr conn, st1) \<Rightarrow>
          (Inr conn, Store ps (getKey conn) conn st1))"

text \<open>
  Lines 45 to 108. The gateway that \<^verbatim>\<open>GetLocalIP\<close> returned is printed (lines 66 to 70) and
  not used again.
\<close>

definition DialIP ::
  "world \<Rightarrow> IPProtocol \<Rightarrow> IP option \<Rightarrow> IP \<Rightarrow> state \<Rightarrow> (error + RawIPConn) \<times> state" where
  "DialIP w protocol srcIP dstIP st =
     (case DialIP_local w srcIP dstIP st of
        (Inl err, st1) \<Rightarrow> (Inl err, st1)
      | (Inr (src, ifc, gatewayIP), st1) \<Rightarrow>
          (case loadSession (Name ifc) st1 of
             (Some ps, st2) \<Rightarrow> DialIP_conn w ps src dstIP protocol st2
           | (None, st2) \<Rightarrow>
               (case newPcapSession w \<lparr>key = Name ifc, iface = ifc\<rparr>
                       \<lparr>conf_arpRequestTimeout = arpRequestTimeout (core st2)\<rparr>
                       (emit (EvNewPcapSession (Name ifc)) st2) of
                  (Inl err, st3) \<Rightarrow> (Inl err, st3)
                | (Inr ps, st3) \<Rightarrow>
                    DialIP_conn w ps src dstIP protocol (storeSession (Name ifc) ps st3))))"

subsection \<open>ListenIP\<close>

text \<open>Lines 143 to 148: the session's listen; the connection is returned as it is.\<close>

definition ListenIP_conn ::
  "addr \<Rightarrow> IP \<Rightarrow> IPProtocol \<Rightarrow> state \<Rightarrow> (error + RawIPConn) \<times> state" where
  "ListenIP_conn ps ip protocol st =
     (case ps_listenIP ps ip protocol (emit (EvSessionListenIP ps ip protocol) st) of
        (Inl err, st1) \<Rightarrow> (Inl (Errorf ''rawSocketCore.ListenIP: %s'' [ArgErr err]), st1)
      | (Inr conn, st1) \<Rightarrow> (Inr conn, st1))"

text \<open>Lines 110 to 149.\<close>

definition ListenIP ::
  "world \<Rightarrow> IP \<Rightarrow> IPProtocol \<Rightarrow> state \<Rightarrow> (error + RawIPConn) \<times> state" where
  "ListenIP w ip protocol st =
     (case findInterfaceByIP w ip st of
        (Inl err, st1) \<Rightarrow> (Inl (Errorf ''interface not found for IP: %v'' [ArgErr err]), st1)
      | (Inr ifc, st1) \<Rightarrow>
          (case loadSession (Name ifc) st1 of
             (Some ps, st2) \<Rightarrow> ListenIP_conn ps ip protocol st2
           | (None, st2) \<Rightarrow>
               (case newPcapSession w \<lparr>key = Name ifc, iface = ifc\<rparr>
                       \<lparr>conf_arpRequestTimeout = arpRequestTimeout (core st2)\<rparr>
                       (emit (EvNewPcapSession (Name ifc)) st2) of
                  (Inl err, st3) \<Rightarrow>
                    (Inl (Errorf ''failed to create pcap session: %v'' [ArgErr err]), st3)
                | (Inr ps, st3) \<Rightarrow>
                    ListenIP_conn ps ip protocol (storeSession (Name ifc) ps st3))))"

subsection \<open>Close\<close>

text \<open>Lines 179 to 181: \<^verbatim>\<open>session.close()\<close> on each session of the snapshot, in turn.\<close>

fun closeSessions :: "addr list \<Rightarrow> state \<Rightarrow> fault + state" where
  "closeSessions [] st = Inr st"
| "closeSessions (ps # rest) st =
     (case ps_close ps (emit (EvSessionClose ps) st) of
        Inl f \<Rightarrow> Inl f
      | Inr st1 \<Rightarrow> closeSessions rest st1)"

text \<open>
  Line 183, \<^verbatim>\<open>close(core.stopChan)\<close>: closing a closed channel panics. The call only
  closes the channel; the reaper has not returned yet.
\<close>

definition closeStopChan :: "state \<Rightarrow> fault + state" where
  "closeStopChan st =
     (if stopChan (core st) = ChanClosed then Inl (Panic ''close of closed channel'')
      else Inr ((emit EvCloseStopChan st)\<lparr>core := (core st)\<lparr>stopChan := ChanClosed\<rparr>\<rparr>))"

text \<open>
  Line 186, \<^verbatim>\<open>core.wg.Wait()\<close>: the caller is suspended until the counter is zero.
  While it is suspended the reaper runs: if it has not returned (the counter is positive)
  and finds \<^verbatim>\<open>stopChan\<close> closed, it returns and counts itself off. With \<^verbatim>\<open>stopChan\<close>
  open the reaper stays in its loop, and with a counter that its return does not bring to
  zero the caller is suspended for ever.
\<close>

definition reaperReturns :: "state \<Rightarrow> state" where
  "reaperReturns st =
     (if stopChan (core st) = ChanClosed \<and> 0 < wg (core st)
      then handlePcapSessionClose Stop st else st)"

definition wgWait :: "state \<Rightarrow> fault + state" where
  "wgWait st =
     (if wg (core (reaperReturns st)) = 0 then Inr (emit EvWait (reaperReturns st))
      else Inl Blocked)"

text \<open>Line 189, \<^verbatim>\<open>close(core.pcapSessionCloseSig)\<close>.\<close>

definition closeCloseSig :: "state \<Rightarrow> fault + state" where
  "closeCloseSig st =
     (if pcapSessionCloseSig (core st) = ChanClosed then Inl (Panic ''close of closed channel'')
      else Inr ((emit EvCloseSessionCloseSig st)
                  \<lparr>core := (core st)\<lparr>pcapSessionCloseSig := ChanClosed\<rparr>\<rparr>))"

text \<open>Line 190, \<^verbatim>\<open>core.arpCache.Close()\<close>.\<close>

definition arpCacheClose :: "state \<Rightarrow> state" where
  "arpCacheClose st =
     (emit EvARPCacheClose st)
       \<lparr>core := (core st)\<lparr>arpCache := (arpCache (core st))\<lparr>cacheClosed := True\<rparr>\<rparr>\<rparr>"

text \<open>
  Lines 172 to 177: the sessions of the map, collected under the lock in the order in
  which the loop visits the entries.
\<close>

definition snapshot :: "world \<Rightarrow> state \<Rightarrow> addr list" where
  "snapshot w st = map snd (rangeOrder w (pcapSessionMap (core st)))"

text \<open>Lines 166 to 193.\<close>

definition Close :: "world \<Rightarrow> state \<Rightarrow> fault + state" where
  "Close w st =
     (if isClosed (core st) then Inr st
      else
        (case closeSessions (snapshot w st)
                (emits [EvLock, EvRange (snapshot w st), EvUnlock]
                   (st\<lparr>core := (core st)\<lparr>isClosed := True\<rparr>\<rparr>)) of
           Inl f \<Rightarrow> Inl f
         | Inr st1 \<Rightarrow>
             (case closeStopChan st1 of
                Inl f \<Rightarrow> Inl f
              | Inr st2 \<Rightarrow>
                  (case wgWait st2 of
                     Inl f \<Rightarrow> Inl f
                   | Inr st3 \<Rightarrow>
                       (case closeCloseSig st3 of
                          Inl f \<Rightarrow> Inl f
                        | Inr st4 \<Rightarrow> Inr (arpCacheClose st4))))))"

subsection \<open>Well-formed states\<close>

text \<open>
  Every pointer in the session map points to a session, and the session's key is the key
  it is stored under.
\<close>

definition wellformed :: "state \<Rightarrow> bool" where
  "wellformed st =
     list_all
       (\<lambda>ka. snd ka < length (sessions st) \<and> key (params (sessions st ! snd ka)) = fst ka)
       (pcapSessionMap (core st))"

text \<open>A core that has not been shut down: both channels open, the reaper running.\<close>

definition live :: "state \<Rightarrow> bool" where
  "live st =
     (\<not> isClosed (core st) \<and> stopChan (core st) = ChanOpen \<and>
      pcapSessionCloseSig (core st) = ChanOpen \<and> wg (core st) = 1)"

text \<open>The closed flag set to a given value, everything else as it is.\<close>

definition setClosed :: "bool \<Rightarrow> state \<Rightarrow> state" where
  "setClosed b st = st\<lparr>core := (core st)\<lparr>isClosed := b\<rparr>\<rparr>"

subsection \<open>Views of a call\<close>

text \<open>
  The first call \<^verbatim>\<open>DialIP\<close> makes, and what lines 52 to 65 compute from the arguments
  and the collaborators, apart from the trace.
\<close>

definition entryEvent :: "IP option \<Rightarrow> IP \<Rightarrow> event" where
  "entryEvent srcIP dstIP =
     (case srcIP of None \<Rightarrow> EvGetLocalIP dstIP | Some s \<Rightarrow> EvFindInterfaceByIP s)"

definition localOf :: "world \<Rightarrow> IP option \<Rightarrow> IP \<Rightarrow> error + (IP \<times> Interface \<times> IP option)" where
  "localOf w srcIP dstIP =
     (case srcIP of
        None \<Rightarrow> routeTo w dstIP
      | Some s \<Rightarrow>
          (case ifaceOfIP w s of
             Inl err \<Rightarrow>
               Inl (Errorf ''provided srcIP %v is not a local IP: %v'' [ArgIP s, ArgErr err])
           | Inr ifc \<Rightarrow> Inr (s, ifc, None)))"

text \<open>The session \<^verbatim>\<open>newPcapSession\<close> allocates for an interface.\<close>

definition newSession :: "Interface \<Rightarrow> state \<Rightarrow> pcapSession" where
  "newSession ifc st =
     \<lparr>params = \<lparr>key = Name ifc, iface = ifc\<rparr>,
      config = \<lparr>conf_arpRequestTimeout = arpRequestTimeout (core st)\<rparr>,
      rawIPConnMap = [], sessClosed = False\<rparr>"

text \<open>The flow table of the session at an address; empty where no session is.\<close>

definition tableAt :: "state \<Rightarrow> addr \<Rightarrow> (connKey \<times> RawIPConn) list" where
  "tableAt st ps = (if ps < length (sessions st) then rawIPConnMap (sessions st ! ps) else [])"

subsection \<open>Reading a trace\<close>

fun isStore :: "event \<Rightarrow> bool" where
  "isStore (EvStore ps k c) = True"
| "isStore e = False"

fun isGetLocalIP :: "event \<Rightarrow> bool" where
  "isGetLocalIP (EvGetLocalIP ip) = True"
| "isGetLocalIP e = False"

fun isOpenLive :: "event \<Rightarrow> bool" where
  "isOpenLive (EvOpenLive k) = True"
| "isOpenLive e = False"

fun isInsert :: "event \<Rightarrow> bool" where
  "isInsert (EvInsert k ps) = True"
| "isInsert e = False"

fun isSessionDialIP :: "event \<Rightarrow> bool" where
  "isSessionDialIP (EvSessionDialIP ps s d p) = True"
| "isSessionDialIP e = False"

text \<open>The addresses a run asked the resolution cache for, in order.\<close>

fun resolved :: "event list \<Rightarrow> IP list" where
  "resolved [] = []"
| "resolved (EvResolve ps ip # es) = ip # resolved es"
| "resolved (e # es) = resolved es"

subsection \<open>Concurrent callers\<close>

text \<open>
  \<^verbatim>\<open>DialIP\<close> and \<^verbatim>\<open>ListenIP\<close> hold \<^verbatim>\<open>core.mu\<close> twice, each time for one map access, and
  release it in between. A goroutine inside one of them is therefore at one of five
  points: at the entry, before the locked read of the map, before \<^verbatim>\<open>newPcapSession\<close>,
  before the locked write of the map, or before the call into the session. \<open>step\<close> runs
  a goroutine from one point to the next; the code between two points is the code of the
  sequential definitions above.
\<close>

datatype call = CallDialIP IPProtocol "IP option" IP | CallListenIP IP IPProtocol

datatype goroutine =
    AtEntry call
  | AtLoad call IP Interface
  | AtNew call IP Interface
  | AtInsert call IP Interface addr
  | AtConn call IP addr
  | Returned "error + RawIPConn"

fun step :: "world \<Rightarrow> goroutine \<Rightarrow> state \<Rightarrow> goroutine \<times> state" where
  "step w (AtEntry (CallDialIP protocol srcIP dstIP)) st =
     (case DialIP_local w srcIP dstIP st of
        (Inl err, st1) \<Rightarrow> (Returned (Inl err), st1)
      | (Inr (src, ifc, gatewayIP), st1) \<Rightarrow>
          (AtLoad (CallDialIP protocol srcIP dstIP) src ifc, st1))"
| "step w (AtEntry (CallListenIP ip protocol)) st =
     (case findInterfaceByIP w ip st of
        (Inl err, st1) \<Rightarrow>
          (Returned (Inl (Errorf ''interface not found for IP: %v'' [ArgErr err])), st1)
      | (Inr ifc, st1) \<Rightarrow> (AtLoad (CallListenIP ip protocol) ip ifc, st1))"
| "step w (AtLoad c src ifc) st =
     (case loadSession (Name ifc) st of
        (Some ps, st1) \<Rightarrow> (AtConn c src ps, st1)
      | (None, st1) \<Rightarrow> (AtNew c src ifc, st1))"
| "step w (AtNew c src ifc) st =
     (case newPcapSession w \<lparr>key = Name ifc, iface = ifc\<rparr>
             \<lparr>conf_arpRequestTimeout = arpRequestTimeout (core st)\<rparr>
             (emit (EvNewPcapSession (Name ifc)) st) of
        (Inl err, st1) \<Rightarrow>
          (Returned
             (Inl (case c of
                     CallDialIP protocol srcIP dstIP \<Rightarrow> err
                   | CallListenIP ip protocol \<Rightarrow>
                       Errorf ''failed to create pcap session: %v'' [ArgErr err])),
           st1)
      | (Inr ps, st1) \<Rightarrow> (AtInsert c src ifc ps, st1))"
| "step w (AtInsert c src ifc ps) st = (AtConn c src ps, storeSession (Name ifc) ps st)"
| "step w (AtConn (CallDialIP protocol srcIP dstIP) src ps) st =
     (case DialIP_conn w ps src dstIP protocol st of (r, st1) \<Rightarrow> (Returned r, st1))"
| "step w (AtConn (CallListenIP ip protocol) src ps) st =
     (case ListenIP_conn ps ip protocol st of (r, st1) \<Rightarrow> (Returned r, st1))"
| "step w (Returned r) st = (Returned r, st)"

text \<open>One goroutine of the list moves; an index outside the list moves nothing.\<close>

definition stepAt :: "world \<Rightarrow> nat \<Rightarrow> goroutine list \<times> state \<Rightarrow> goroutine list \<times> state" where
  "stepAt w i c =
     (case c of
        (gs, st) \<Rightarrow>
          if i < length gs
          then (case step w (gs ! i) st of (g, st1) \<Rightarrow> (gs[i := g], st1))
          else (gs, st))"

text \<open>A schedule names, step by step, the goroutine that moves.\<close>

fun run :: "world \<Rightarrow> nat list \<Rightarrow> goroutine list \<times> state \<Rightarrow> goroutine list \<times> state" where
  "run w [] c = c"
| "run w (i # sched) c = run w sched (stepAt w i c)"

text \<open>The session a goroutine's call returned a connection of, if it returned one.\<close>

fun returnedSession :: "goroutine \<Rightarrow> addr option" where
  "returnedSession (Returned (Inr conn)) = Some (session conn)"
| "returnedSession g = None"

subsection \<open>A small network\<close>

text \<open>
  One host with three interfaces. \<open>en0\<close> has the address 192.168.1.10 and a gateway
  192.168.1.1; 8.8.8.8 is reached through the gateway, 192.168.1.20 is on the link and
  answers resolution requests, 192.168.1.30 is on the link and does not. \<open>en1\<close> has the
  address 10.0.0.5 and no capture handle can be opened on it. \<open>lo0\<close> has the address
  127.0.0.1. A loop over a map visits the entries last to first.
\<close>

definition en0 :: Interface where
  "en0 = \<lparr>Index = 1, Name = ''en0''\<rparr>"

definition en1 :: Interface where
  "en1 = \<lparr>Index = 2, Name = ''en1''\<rparr>"

definition lo0 :: Interface where
  "lo0 = \<lparr>Index = 3, Name = ''lo0''\<rparr>"

definition world0 :: world where
  "world0 =
     \<lparr>routeTo = (\<lambda>d.
         if d = [8, 8, 8, 8] then Inr ([192, 168, 1, 10], en0, Some [192, 168, 1, 1])
         else if d = [192, 168, 1, 20] then Inr ([192, 168, 1, 10], en0, None)
         else if d = [192, 168, 1, 30] then Inr ([192, 168, 1, 10], en0, None)
         else if d = [10, 0, 0, 7] then Inr ([10, 0, 0, 5], en1, None)
         else Inl (Error ''no route to host'')),
      ifaceOfIP = (\<lambda>a.
         if a = [192, 168, 1, 10] then Inr en0
         else if a = [10, 0, 0, 5] then Inr en1
         else if a = [127, 0, 0, 1] then Inr lo0
         else Inl (Error ''no interface with this address'')),
      openLive = (\<lambda>i. if Name i = ''en1'' then Some (Error ''pcap: no such device'') else None),
      arpReply = (\<lambda>a.
         if a = [192, 168, 1, 1] then Some [0, 17, 34, 51, 68, 85]
         else if a = [192, 168, 1, 20] then Some [0, 17, 34, 51, 68, 102]
         else None),
      rangeOrder = rev\<rparr>"

text \<open>The core of \<open>NewRawSocketCore 60 2\<close> after \<^verbatim>\<open>Close\<close>.\<close>

definition closed0 :: state where
  "closed0 =
     \<lparr>core =
        \<lparr>pcapSessionMap = [], arpCacheTimeout = 60000000000, arpRequestTimeout = 2000000000,
         pcapSessionCloseSig = ChanClosed,
         arpCache = \<lparr>cacheTimeout = 60000000000, cacheClosed = True\<rparr>,
         stopChan = ChanClosed, wg = 0, isClosed = True\<rparr>,
      sessions = [], nextConn = 0,
      trace = [EvLock, EvRange [], EvUnlock, EvCloseStopChan, EvWait, EvCloseSessionCloseSig,
               EvARPCacheClose]\<rparr>"

section \<open>Lemmas\<close>

subsection \<open>Fields that a step leaves alone\<close>

lemma emit_fields [simp]:
  "core (emit e st) = core st"
  "sessions (emit e st) = sessions st"
  "nextConn (emit e st) = nextConn st"
  "trace (emit e st) = trace st @ [e]"
  by (simp_all add: emit_def)

lemma emits_fields [simp]:
  "core (emits es st) = core st"
  "sessions (emits es st) = sessions st"
  "nextConn (emits es st) = nextConn st"
  "trace (emits es st) = trace st @ es"
  by (induction es arbitrary: st) simp_all

lemma updSession_fields [simp]:
  "core (updSession ps f st) = core st"
  "nextConn (updSession ps f st) = nextConn st"
  "trace (updSession ps f st) = trace st"
  "length (sessions (updSession ps f st)) = length (sessions st)"
  by (simp_all add: updSession_def)

lemma handle_fields [simp]:
  "sessions (handlePcapSessionClose sig st) = sessions st"
  "nextConn (handlePcapSessionClose sig st) = nextConn st"
  "trace (handlePcapSessionClose sig st) = trace st"
  "isClosed (core (handlePcapSessionClose sig st)) = isClosed (core st)"
  "stopChan (core (handlePcapSessionClose sig st)) = stopChan (core st)"
  "pcapSessionCloseSig (core (handlePcapSessionClose sig st)) = pcapSessionCloseSig (core st)"
  "arpCache (core (handlePcapSessionClose sig st)) = arpCache (core st)"
  by (simp_all add: handlePcapSessionClose_def split: signal.splits)

lemma handle_SessionClosed_wg [simp]:
  "wg (core (handlePcapSessionClose (SessionClosed ps) st)) = wg (core st)"
  by (simp add: handlePcapSessionClose_def)

lemma reaperReturns_fields [simp]:
  "sessions (reaperReturns st) = sessions st"
  "nextConn (reaperReturns st) = nextConn st"
  "trace (reaperReturns st) = trace st"
  "isClosed (core (reaperReturns st)) = isClosed (core st)"
  "stopChan (core (reaperReturns st)) = stopChan (core st)"
  "pcapSessionCloseSig (core (reaperReturns st)) = pcapSessionCloseSig (core st)"
  "arpCache (core (reaperReturns st)) = arpCache (core st)"
  "pcapSessionMap (core (reaperReturns st)) = pcapSessionMap (core st)"
  by (simp_all add: reaperReturns_def handlePcapSessionClose_def)

lemma storeSession_fields [simp]:
  "core (storeSession k ps st) =
     (core st)\<lparr>pcapSessionMap := AList.update k ps (pcapSessionMap (core st))\<rparr>"
  "sessions (storeSession k ps st) = sessions st"
  "nextConn (storeSession k ps st) = nextConn st"
  "trace (storeSession k ps st) = trace st @ [EvLock, EvInsert k ps, EvUnlock]"
  by (simp_all add: storeSession_def emit_def)

lemma Store_fields [simp]:
  "core (Store ps k c st) = core st"
  "nextConn (Store ps k c st) = nextConn st"
  "trace (Store ps k c st) = trace st @ [EvStore ps k (connId c)]"
  "length (sessions (Store ps k c st)) = length (sessions st)"
  by (simp_all add: Store_def)

lemma Store_sessions:
  "sessions (Store ps k c st) =
     (if ps < length (sessions st)
      then (sessions st)[ps := (sessions st ! ps)
              \<lparr>rawIPConnMap := AList.update k c (rawIPConnMap (sessions st ! ps))\<rparr>]
      else sessions st)"
  by (simp add: Store_def updSession_def)

lemma setClosed_fields [simp]:
  "sessions (setClosed b st) = sessions st"
  "nextConn (setClosed b st) = nextConn st"
  "trace (setClosed b st) = trace st"
  "pcapSessionMap (core (setClosed b st)) = pcapSessionMap (core st)"
  "arpRequestTimeout (core (setClosed b st)) = arpRequestTimeout (core st)"
  "isClosed (core (setClosed b st)) = b"
  by (simp_all add: setClosed_def)

lemma added_append [simp]: "trace st' = trace st @ evs \<Longrightarrow> added st st' = evs"
  by (simp add: added_def)

lemma added_emit [simp]: "added st (emit e st) = [e]"
  by (simp add: added_def)

lemma added_emits [simp]: "added st (emits es st) = es"
  by (simp add: added_def)

subsection \<open>Closing sessions\<close>

lemma ps_close_Inr:
  assumes "ps_close ps st = Inr st'"
  shows "isClosed (core st') = isClosed (core st)"
    and "stopChan (core st') = stopChan (core st)"
    and "pcapSessionCloseSig (core st') = pcapSessionCloseSig (core st)"
    and "wg (core st') = wg (core st)"
    and "arpCache (core st') = arpCache (core st)"
    and "trace st' = trace st"
    and "nextConn st' = nextConn st"
    and "length (sessions st') = length (sessions st)"
  using assms
  by (auto simp: ps_close_def sendCloseSig_def split: if_splits)

lemma closeSessions_Inr:
  "closeSessions as st = Inr st' \<Longrightarrow>
     isClosed (core st') = isClosed (core st) \<and>
     stopChan (core st') = stopChan (core st) \<and>
     pcapSessionCloseSig (core st') = pcapSessionCloseSig (core st) \<and>
     wg (core st') = wg (core st) \<and>
     arpCache (core st') = arpCache (core st) \<and>
     trace st' = trace st @ map EvSessionClose as \<and>
     nextConn st' = nextConn st \<and>
     length (sessions st') = length (sessions st)"
proof (induction as arbitrary: st)
  case Nil
  then show ?case by simp
next
  case (Cons a as)
  from Cons.prems obtain st1 where
    a: "ps_close a (emit (EvSessionClose a) st) = Inr st1" and
    rest: "closeSessions as st1 = Inr st'"
    by (auto split: sum.splits)
  from ps_close_Inr [OF a] Cons.IH [OF rest] show ?case by simp
qed

lemma Close_sets_isClosed:
  assumes "Close w st = Inr st'"
  shows "isClosed (core st')"
  using assms
  by (auto simp: Close_def closeStopChan_def wgWait_def closeCloseSig_def arpCacheClose_def
      split: if_splits sum.splits dest!: closeSessions_Inr)

lemma ps_close_ok:
  assumes "a < length (sessions st)" "stopChan (core st) = ChanOpen"
    "pcapSessionCloseSig (core st) = ChanOpen"
  shows "\<exists>st'. ps_close a st = Inr st' \<and> sessClosed (sessions st' ! a) \<and>
           (\<forall>b. b < length (sessions st) \<longrightarrow> sessClosed (sessions st ! b) \<longrightarrow> sessClosed (sessions st' ! b))"
  using assms
  by (auto simp: ps_close_def sendCloseSig_def updSession_def nth_list_update)

lemma closeSessions_ok:
  "list_all (\<lambda>a. a < length (sessions st)) as \<Longrightarrow> stopChan (core st) = ChanOpen \<Longrightarrow>
   pcapSessionCloseSig (core st) = ChanOpen \<Longrightarrow>
   \<exists>st'. closeSessions as st = Inr st' \<and> list_all (\<lambda>a. sessClosed (sessions st' ! a)) as \<and>
      (\<forall>b. b < length (sessions st) \<longrightarrow> sessClosed (sessions st ! b) \<longrightarrow> sessClosed (sessions st' ! b))"
proof (induction as arbitrary: st)
  case Nil
  then show ?case by simp
next
  case (Cons a as)
  have a: "a < length (sessions (emit (EvSessionClose a) st))"
    and o1: "stopChan (core (emit (EvSessionClose a) st)) = ChanOpen"
    and o2: "pcapSessionCloseSig (core (emit (EvSessionClose a) st)) = ChanOpen"
    using Cons.prems by simp_all
  from ps_close_ok [OF a o1 o2] obtain st1 where
    c: "ps_close a (emit (EvSessionClose a) st) = Inr st1" and
    ca: "sessClosed (sessions st1 ! a)" and
    mono1: "\<forall>b. b < length (sessions st) \<longrightarrow> sessClosed (sessions st ! b) \<longrightarrow> sessClosed (sessions st1 ! b)"
    by auto
  from ps_close_Inr [OF c] Cons.prems have
    p1: "list_all (\<lambda>a. a < length (sessions st1)) as" and
    p2: "stopChan (core st1) = ChanOpen" and
    p3: "pcapSessionCloseSig (core st1) = ChanOpen" and
    len: "length (sessions st1) = length (sessions st)"
    by simp_all
  from Cons.IH [OF p1 p2 p3] obtain st' where
    r: "closeSessions as st1 = Inr st'" and
    cl: "list_all (\<lambda>a. sessClosed (sessions st' ! a)) as" and
    mono2: "\<forall>b. b < length (sessions st1) \<longrightarrow> sessClosed (sessions st1 ! b) \<longrightarrow> sessClosed (sessions st' ! b)"
    by auto
  from Cons.prems have "a < length (sessions st)" by simp
  with ca mono2 len have "sessClosed (sessions st' ! a)" by simp
  with c r cl mono1 mono2 len show ?case by simp
qed

lemma snapshot_mset:
  "mset (rangeOrder w (pcapSessionMap (core st))) = mset (pcapSessionMap (core st)) \<Longrightarrow>
     mset (snapshot w st) = mset (map snd (pcapSessionMap (core st)))"
  unfolding snapshot_def mset_map by simp

lemma wf_snapshot:
  assumes "wellformed st"
    and "mset (rangeOrder w (pcapSessionMap (core st))) = mset (pcapSessionMap (core st))"
  shows "list_all (\<lambda>a. a < length (sessions st)) (snapshot w st)"
proof -
  from assms(2) have "set (rangeOrder w (pcapSessionMap (core st))) = set (pcapSessionMap (core st))"
    by (rule mset_eq_setD)
  with assms(1) show ?thesis
    by (auto simp: wellformed_def snapshot_def list_all_iff)
qed

subsection \<open>DialIP and ListenIP, case by case\<close>

text \<open>
  Each rule below runs one call symbolically: it names the branches of the source and, for
  each, the result and the fields of the final state.
\<close>

lemma DialIP_local_eq:
  "DialIP_local w srcIP dstIP st = (localOf w srcIP dstIP, emit (entryEvent srcIP dstIP) st)"
  by (simp add: DialIP_local_def GetLocalIP_def findInterfaceByIP_def localOf_def entryEvent_def
      split: option.splits sum.splits)

lemma localOf_fst: "fst (DialIP_local w srcIP dstIP st) = localOf w srcIP dstIP"
  by (simp add: DialIP_local_eq)

lemma DialIP_conn_cases [consumes 1, case_names timeout connected]:
  assumes run: "DialIP_conn w ps src dstIP protocol st = (r, st')"
  obtains
    "arpReply w (nextHopIP w dstIP) = None"
    "r = Inl (Error ''AddressResolutionTimeout'')"
    "core st' = core st" "sessions st' = sessions st" "nextConn st' = nextConn st"
    "trace st' = trace st @ [EvSessionDialIP ps src dstIP protocol, EvResolve ps (nextHopIP w dstIP)]"
  | mac conn where
    "arpReply w (nextHopIP w dstIP) = Some mac"
    "conn = \<lparr>connId = nextConn st, session = ps, localAddress = src,
             remoteAddress = Remote dstIP, protocolIdentifier = protocol, dstMAC = Some mac\<rparr>"
    "r = Inr conn"
    "core st' = core st" "nextConn st' = Suc (nextConn st)"
    "sessions st' =
       (if ps < length (sessions st)
        then (sessions st)[ps := (sessions st ! ps)
                \<lparr>rawIPConnMap := AList.update (getKey conn) conn (rawIPConnMap (sessions st ! ps))\<rparr>]
        else sessions st)"
    "trace st' = trace st @ [EvSessionDialIP ps src dstIP protocol, EvResolve ps (nextHopIP w dstIP),
                             EvStore ps (getKey conn) (connId conn)]"
proof (cases "arpReply w (nextHopIP w dstIP)")
  case None
  with run have "r = Inl (Error ''AddressResolutionTimeout'')"
    "st' = emit (EvResolve ps (nextHopIP w dstIP)) (emit (EvSessionDialIP ps src dstIP protocol) st)"
    by (auto simp: DialIP_conn_def ps_dialIP_def)
  with None show thesis using that(1) by simp
next
  case (Some mac)
  define conn where "conn = \<lparr>connId = nextConn st, session = ps, localAddress = src,
             remoteAddress = Remote dstIP, protocolIdentifier = protocol, dstMAC = Some mac\<rparr>"
  from run Some have r: "r = Inr conn" and
    st': "st' = Store ps (getKey conn) conn
            ((emit (EvResolve ps (nextHopIP w dstIP))
                (emit (EvSessionDialIP ps src dstIP protocol) st))\<lparr>nextConn := Suc (nextConn st)\<rparr>)"
    by (auto simp: DialIP_conn_def ps_dialIP_def conn_def)
  show thesis
    by (rule that(2) [OF Some conn_def r]) (simp_all add: st' Store_sessions)
qed

lemma DialIP_cases [consumes 1, case_names local_fails reuse open_fails create]:
  assumes run: "DialIP w protocol srcIP dstIP st = (r, st')"
  obtains
    err where "localOf w srcIP dstIP = Inl err" "r = Inl err"
      "st' = emit (entryEvent srcIP dstIP) st"
  | src ifc gw ps where "localOf w srcIP dstIP = Inr (src, ifc, gw)"
      "map_of (pcapSessionMap (core st)) (Name ifc) = Some ps"
      "DialIP_conn w ps src dstIP protocol
         (emits [entryEvent srcIP dstIP, EvLock, EvLoad (Name ifc), EvUnlock] st) = (r, st')"
  | src ifc gw err where "localOf w srcIP dstIP = Inr (src, ifc, gw)"
      "map_of (pcapSessionMap (core st)) (Name ifc) = None"
      "openLive w ifc = Some err" "r = Inl err"
      "st' = emits [entryEvent srcIP dstIP, EvLock, EvLoad (Name ifc), EvUnlock,
                    EvNewPcapSession (Name ifc)] st"
  | src ifc gw st3 where "localOf w srcIP dstIP = Inr (src, ifc, gw)"
      "map_of (pcapSessionMap (core st)) (Name ifc) = None"
      "openLive w ifc = None"
      "core st3 = (core st)\<lparr>pcapSessionMap :=
                     AList.update (Name ifc) (length (sessions st)) (pcapSessionMap (core st))\<rparr>"
      "sessions st3 = sessions st @ [newSession ifc st]"
      "nextConn st3 = nextConn st"
      "trace st3 = trace st @ [entryEvent srcIP dstIP, EvLock, EvLoad (Name ifc), EvUnlock,
                     EvNewPcapSession (Name ifc), EvOpenLive (Name ifc),
                     EvLock, EvInsert (Name ifc) (length (sessions st)), EvUnlock]"
      "DialIP_conn w (length (sessions st)) src dstIP protocol st3 = (r, st')"
proof (cases "localOf w srcIP dstIP")
  case (Inl err)
  with run have "r = Inl err" "st' = emit (entryEvent srcIP dstIP) st"
    by (simp_all add: DialIP_def DialIP_local_eq)
  with Inl show thesis using that(1) by blast
next
  case (Inr t)
  obtain src ifc gw where t: "t = (src, ifc, gw)" by (cases t)
  note l = Inr [unfolded t]
  show thesis
  proof (cases "map_of (pcapSessionMap (core st)) (Name ifc)")
    case (Some ps)
    with l run have
      "DialIP_conn w ps src dstIP protocol
         (emits [entryEvent srcIP dstIP, EvLock, EvLoad (Name ifc), EvUnlock] st) = (r, st')"
      by (simp add: DialIP_def DialIP_local_eq loadSession_def)
    with l Some show thesis using that(2) by blast
  next
    case None
    show thesis
    proof (cases "openLive w ifc")
      case (Some err)
      with l run None have "r = Inl err"
        "st' = emits [entryEvent srcIP dstIP, EvLock, EvLoad (Name ifc), EvUnlock,
                    EvNewPcapSession (Name ifc)] st"
        by (simp_all add: DialIP_def DialIP_local_eq loadSession_def newPcapSession_def)
      with l None Some show thesis using that(3) by blast
    next
      case ol: None
      define st3 where "st3 = storeSession (Name ifc) (length (sessions st))
         ((emits [entryEvent srcIP dstIP, EvLock, EvLoad (Name ifc), EvUnlock,
                  EvNewPcapSession (Name ifc), EvOpenLive (Name ifc)] st)
            \<lparr>sessions := sessions st @ [newSession ifc st]\<rparr>)"
      from l run None ol have
        "DialIP_conn w (length (sessions st)) src dstIP protocol st3 = (r, st')"
        by (simp add: DialIP_def DialIP_local_eq loadSession_def newPcapSession_def st3_def
            newSession_def)
      moreover have "core st3 = (core st)\<lparr>pcapSessionMap :=
                     AList.update (Name ifc) (length (sessions st)) (pcapSessionMap (core st))\<rparr>"
        "sessions st3 = sessions st @ [newSession ifc st]"
        "nextConn st3 = nextConn st"
        "trace st3 = trace st @ [entryEvent srcIP dstIP, EvLock, EvLoad (Name ifc), EvUnlock,
                     EvNewPcapSession (Name ifc), EvOpenLive (Name ifc),
                     EvLock, EvInsert (Name ifc) (length (sessions st)), EvUnlock]"
        by (simp_all add: st3_def)
      ultimately show thesis using l None ol that(4) by blast
    qed
  qed
qed

lemma ListenIP_conn_eq:
  "ListenIP_conn ps ip protocol st =
     (Inr \<lparr>connId = nextConn st, session = ps, localAddress = ip,
           remoteAddress = AnyRemote, protocolIdentifier = protocol, dstMAC = None\<rparr>,
      updSession ps
        (\<lambda>s. s\<lparr>rawIPConnMap :=
                 AList.update (ip, AnyRemote, protocol)
                   \<lparr>connId = nextConn st, session = ps, localAddress = ip,
                    remoteAddress = AnyRemote, protocolIdentifier = protocol, dstMAC = None\<rparr>
                   (rawIPConnMap s)\<rparr>)
        ((emit (EvSessionListenIP ps ip protocol) st)\<lparr>nextConn := Suc (nextConn st)\<rparr>))"
  by (simp add: ListenIP_conn_def ps_listenIP_def)

lemma ListenIP_conn_fields:
  assumes "ListenIP_conn ps ip protocol st = (r, st')"
  shows "core st' = core st" "nextConn st' = Suc (nextConn st)"
    "trace st' = trace st @ [EvSessionListenIP ps ip protocol]"
    "length (sessions st') = length (sessions st)"
    "\<exists>conn. r = Inr conn \<and> session conn = ps \<and> localAddress conn = ip \<and>
        remoteAddress conn = AnyRemote \<and> protocolIdentifier conn = protocol \<and>
        connId conn = nextConn st"
  using assms by (auto simp: ListenIP_conn_eq)

lemma ListenIP_cases [consumes 1, case_names lookup_fails reuse open_fails create]:
  assumes run: "ListenIP w ip protocol st = (r, st')"
  obtains
    err where "ifaceOfIP w ip = Inl err"
      "r = Inl (Errorf ''interface not found for IP: %v'' [ArgErr err])"
      "st' = emit (EvFindInterfaceByIP ip) st"
  | ifc ps where "ifaceOfIP w ip = Inr ifc"
      "map_of (pcapSessionMap (core st)) (Name ifc) = Some ps"
      "ListenIP_conn ps ip protocol
         (emits [EvFindInterfaceByIP ip, EvLock, EvLoad (Name ifc), EvUnlock] st) = (r, st')"
  | ifc err where "ifaceOfIP w ip = Inr ifc"
      "map_of (pcapSessionMap (core st)) (Name ifc) = None"
      "openLive w ifc = Some err"
      "r = Inl (Errorf ''failed to create pcap session: %v'' [ArgErr err])"
      "st' = emits [EvFindInterfaceByIP ip, EvLock, EvLoad (Name ifc), EvUnlock,
                    EvNewPcapSession (Name ifc)] st"
  | ifc st3 where "ifaceOfIP w ip = Inr ifc"
      "map_of (pcapSessionMap (core st)) (Name ifc) = None"
      "openLive w ifc = None"
      "core st3 = (core st)\<lparr>pcapSessionMap :=
                     AList.update (Name ifc) (length (sessions st)) (pcapSessionMap (core st))\<rparr>"
      "sessions st3 = sessions st @ [newSession ifc st]"
      "nextConn st3 = nextConn st"
      "trace st3 = trace st @ [EvFindInterfaceByIP ip, EvLock, EvLoad (Name ifc), EvUnlock,
                     EvNewPcapSession (Name ifc), EvOpenLive (Name ifc),
                     EvLock, EvInsert (Name ifc) (length (sessions st)), EvUnlock]"
      "ListenIP_conn (length (sessions st)) ip protocol st3 = (r, st')"
proof (cases "ifaceOfIP w ip")
  case (Inl err)
  with run have "r = Inl (Errorf ''interface not found for IP: %v'' [ArgErr err])"
    "st' = emit (EvFindInterfaceByIP ip) st"
    by (simp_all add: ListenIP_def findInterfaceByIP_def)
  with Inl show thesis using that(1) by blast
next
  case (Inr ifc)
  note l = Inr
  show thesis
  proof (cases "map_of (pcapSessionMap (core st)) (Name ifc)")
    case (Some ps)
    with l run have
      "ListenIP_conn ps ip protocol
         (emits [EvFindInterfaceByIP ip, EvLock, EvLoad (Name ifc), EvUnlock] st) = (r, st')"
      by (simp add: ListenIP_def findInterfaceByIP_def loadSession_def)
    with l Some show thesis using that(2) by blast
  next
    case None
    show thesis
    proof (cases "openLive w ifc")
      case (Some err)
      with l run None have "r = Inl (Errorf ''failed to create pcap session: %v'' [ArgErr err])"
        "st' = emits [EvFindInterfaceByIP ip, EvLock, EvLoad (Name ifc), EvUnlock,
                    EvNewPcapSession (Name ifc)] st"
        by (simp_all add: ListenIP_def findInterfaceByIP_def loadSession_def newPcapSession_def)
      with l None Some show thesis using that(3) by blast
    next
      case ol: None
      define st3 where "st3 = storeSession (Name ifc) (length (sessions st))
         ((emits [EvFindInterfaceByIP ip, EvLock, EvLoad (Name ifc), EvUnlock,
                  EvNewPcapSession (Name ifc), EvOpenLive (Name ifc)] st)
            \<lparr>sessions := sessions st @ [newSession ifc st]\<rparr>)"
      from l run None ol have
        "ListenIP_conn (length (sessions st)) ip protocol st3 = (r, st')"
        by (simp add: ListenIP_def findInterfaceByIP_def loadSession_def newPcapSession_def st3_def
            newSession_def)
      moreover have "core st3 = (core st)\<lparr>pcapSessionMap :=
                     AList.update (Name ifc) (length (sessions st)) (pcapSessionMap (core st))\<rparr>"
        "sessions st3 = sessions st @ [newSession ifc st]"
        "nextConn st3 = nextConn st"
        "trace st3 = trace st @ [EvFindInterfaceByIP ip, EvLock, EvLoad (Name ifc), EvUnlock,
                     EvNewPcapSession (Name ifc), EvOpenLive (Name ifc),
                     EvLock, EvInsert (Name ifc) (length (sessions st)), EvUnlock]"
        by (simp_all add: st3_def)
      ultimately show thesis using l None ol that(4) by blast
    qed
  qed
qed

subsection \<open>Well-formed states\<close>

lemma list_all_update:
  "list_all P al \<Longrightarrow> P (k, v) \<Longrightarrow> list_all P (AList.update k v al)"
  by (induction al) (auto)

lemma wf_lookup:
  "wellformed st \<Longrightarrow> map_of (pcapSessionMap (core st)) k = Some ps \<Longrightarrow>
     ps < length (sessions st) \<and> key (params (sessions st ! ps)) = k"
  by (auto simp: wellformed_def list_all_iff dest!: map_of_SomeD)

lemma wf_same_params:
  assumes "wellformed st" "pcapSessionMap (core st') = pcapSessionMap (core st)"
    "length (sessions st') = length (sessions st)"
    "\<And>a. a < length (sessions st) \<Longrightarrow> params (sessions st' ! a) = params (sessions st ! a)"
  shows "wellformed st'"
  using assms by (auto simp: wellformed_def list_all_iff)

lemma wf_new_session:
  assumes "wellformed st"
    "pcapSessionMap (core st') = AList.update k (length (sessions st)) (pcapSessionMap (core st))"
    "length (sessions st') = Suc (length (sessions st))"
    "\<And>a. a < length (sessions st) \<Longrightarrow> params (sessions st' ! a) = params (sessions st ! a)"
    "key (params (sessions st' ! length (sessions st))) = k"
  shows "wellformed st'"
proof -
  let ?P = "\<lambda>ka. snd ka < length (sessions st') \<and> key (params (sessions st' ! snd ka)) = fst ka"
  have "list_all ?P (pcapSessionMap (core st))"
    using assms(1,3,4) by (auto simp: wellformed_def list_all_iff)
  moreover have "?P (k, length (sessions st))" using assms(3,5) by simp
  ultimately show ?thesis
    unfolding wellformed_def assms(2) by (rule list_all_update)
qed

subsection \<open>What a dial leaves behind\<close>

lemma DialIP_Inr:
  assumes inv: "wellformed st" and run: "DialIP w protocol srcIP dstIP st = (Inr conn, st')"
  obtains src ifc gw mac where
    "localOf w srcIP dstIP = Inr (src, ifc, gw)"
    "arpReply w (nextHopIP w dstIP) = Some mac"
    "conn = \<lparr>connId = nextConn st, session = session conn, localAddress = src,
             remoteAddress = Remote dstIP, protocolIdentifier = protocol, dstMAC = Some mac\<rparr>"
    "map_of (pcapSessionMap (core st')) (Name ifc) = Some (session conn)"
    "session conn < length (sessions st')"
    "key (params (sessions st' ! session conn)) = Name ifc"
    "nextConn st' = Suc (nextConn st)"
    "rawIPConnMap (sessions st' ! session conn) =
       AList.update (getKey conn) conn (tableAt st (session conn))"
    "wellformed st'"
    "\<exists>evs. added st st' = evs @ [EvSessionDialIP (session conn) src dstIP protocol,
        EvResolve (session conn) (nextHopIP w dstIP),
        EvStore (session conn) (getKey conn) (connId conn)] \<and>
        filter isStore evs = [] \<and> resolved evs = [] \<and> filter isSessionDialIP evs = []"
  using run
proof (cases rule: DialIP_cases)
  case (local_fails err)
  then show ?thesis by simp
next
  case (reuse src ifc gw ps)
  from wf_lookup [OF inv reuse(2)] have ps: "ps < length (sessions st)"
    "key (params (sessions st ! ps)) = Name ifc" by simp_all
  from reuse(3) show ?thesis
  proof (cases rule: DialIP_conn_cases)
    case timeout
    then show ?thesis by simp
  next
    case (connected mac c)
    then have c: "c = conn" by simp
    note f = connected [unfolded c]
    have s: "session conn = ps" using f(2) by (cases conn) simp
    have inv': "wellformed st'"
      using inv by (rule wf_same_params) (simp_all add: f ps nth_list_update)
    have ev: "\<exists>evs. added st st' = evs @ [EvSessionDialIP (session conn) src dstIP protocol,
        EvResolve (session conn) (nextHopIP w dstIP),
        EvStore (session conn) (getKey conn) (connId conn)] \<and>
        filter isStore evs = [] \<and> resolved evs = [] \<and> filter isSessionDialIP evs = []"
      by (rule exI [of _ "[entryEvent srcIP dstIP, EvLock, EvLoad (Name ifc), EvUnlock]"])
         (simp add: f s entryEvent_def split: option.splits)
    show ?thesis
      by (rule that [OF reuse(1) f(1) _ _ _ _ _ _ inv' ev])
         (use f ps reuse(2) s in \<open>simp_all add: tableAt_def\<close>)
  qed
next
  case (open_fails src ifc gw err)
  then show ?thesis by simp
next
  case (create src ifc gw st3)
  from create(8) show ?thesis
  proof (cases rule: DialIP_conn_cases)
    case timeout
    then show ?thesis by simp
  next
    case (connected mac c)
    then have c: "c = conn" by simp
    note f = connected [unfolded c]
    have s: "session conn = length (sessions st)" using f(2) by (cases conn) simp
    have inv': "wellformed st'"
      using inv
      by (rule wf_new_session [where k = "Name ifc"])
         (simp_all add: f create nth_list_update nth_append newSession_def)
    have ev: "\<exists>evs. added st st' = evs @ [EvSessionDialIP (session conn) src dstIP protocol,
        EvResolve (session conn) (nextHopIP w dstIP),
        EvStore (session conn) (getKey conn) (connId conn)] \<and>
        filter isStore evs = [] \<and> resolved evs = [] \<and> filter isSessionDialIP evs = []"
      by (rule exI [of _ "[entryEvent srcIP dstIP, EvLock, EvLoad (Name ifc), EvUnlock,
                     EvNewPcapSession (Name ifc), EvOpenLive (Name ifc),
                     EvLock, EvInsert (Name ifc) (length (sessions st)), EvUnlock]"])
         (simp add: f s create entryEvent_def split: option.splits)
    show ?thesis
      by (rule that [OF create(1) f(1) _ _ _ _ _ _ inv' ev])
         (use f create s in \<open>simp_all add: tableAt_def update_conv' newSession_def\<close>)
  qed
qed

lemma DialIP_Inr_reuses:
  assumes run: "DialIP w protocol srcIP dstIP st = (Inr conn, st')"
    and l: "localOf w srcIP dstIP = Inr (src, ifc, gw)"
    and m: "map_of (pcapSessionMap (core st)) (Name ifc) = Some ps"
  shows "session conn = ps"
  using run
proof (cases rule: DialIP_cases)
  case (local_fails err)
  then show ?thesis by simp
next
  case (reuse src' ifc' gw' ps')
  with l m have eq: "ps' = ps" by simp
  from reuse(3) show ?thesis
    using eq by (cases rule: DialIP_conn_cases) auto
next
  case (open_fails src' ifc' gw' err)
  then show ?thesis by simp
next
  case (create src' ifc' gw' st3)
  with l m show ?thesis by simp
qed

lemma DialIP_Inl:
  assumes run: "DialIP w protocol srcIP dstIP st = (Inl err, st')"
  shows "take (length (sessions st)) (sessions st') = sessions st"
    and "list_all (\<lambda>s. rawIPConnMap s = []) (drop (length (sessions st)) (sessions st'))"
    and "filter isStore (added st st') = []"
    and "filter isSessionDialIP (added st st') \<noteq> [] \<Longrightarrow>
           err = Error ''AddressResolutionTimeout'' \<and> arpReply w (nextHopIP w dstIP) = None"
    and "nextConn st' = nextConn st"
proof -
  have "take (length (sessions st)) (sessions st') = sessions st \<and>
    list_all (\<lambda>s. rawIPConnMap s = []) (drop (length (sessions st)) (sessions st')) \<and>
    filter isStore (added st st') = [] \<and>
    (filter isSessionDialIP (added st st') \<noteq> [] \<longrightarrow>
           err = Error ''AddressResolutionTimeout'' \<and> arpReply w (nextHopIP w dstIP) = None) \<and>
    nextConn st' = nextConn st"
    using run
  proof (cases rule: DialIP_cases)
    case (local_fails e)
    then show ?thesis by (simp add: entryEvent_def split: option.splits)
  next
    case (reuse src ifc gw ps)
    from reuse(3) show ?thesis
      by (cases rule: DialIP_conn_cases) (simp_all add: entryEvent_def split: option.splits)
  next
    case (open_fails src ifc gw e)
    then show ?thesis by (simp add: entryEvent_def split: option.splits)
  next
    case (create src ifc gw st3)
    from create(8) show ?thesis
      by (cases rule: DialIP_conn_cases)
         (simp_all add: create entryEvent_def newSession_def split: option.splits)
  qed
  then show "take (length (sessions st)) (sessions st') = sessions st"
    and "list_all (\<lambda>s. rawIPConnMap s = []) (drop (length (sessions st)) (sessions st'))"
    and "filter isStore (added st st') = []"
    and "filter isSessionDialIP (added st st') \<noteq> [] \<Longrightarrow>
           err = Error ''AddressResolutionTimeout'' \<and> arpReply w (nextHopIP w dstIP) = None"
    and "nextConn st' = nextConn st"
    by simp_all
qed

lemma DialIP_route_queries:
  assumes "DialIP w protocol srcIP dstIP st = (r, st')"
  shows "filter isGetLocalIP (added st st') =
           (case srcIP of None \<Rightarrow> [EvGetLocalIP dstIP] | Some s \<Rightarrow> [])"
  using assms
proof (cases rule: DialIP_cases)
  case (local_fails err)
  then show ?thesis by (simp add: entryEvent_def split: option.splits)
next
  case (reuse src ifc gw ps)
  from reuse(3) show ?thesis
    by (cases rule: DialIP_conn_cases) (simp_all add: entryEvent_def split: option.splits)
next
  case (open_fails src ifc gw err)
  then show ?thesis by (simp add: entryEvent_def split: option.splits)
next
  case (create src ifc gw st3)
  from create(8) show ?thesis
    by (cases rule: DialIP_conn_cases) (simp_all add: create(7) entryEvent_def split: option.splits)
qed

lemma DialIP_stores_once:
  assumes inv: "wellformed st" and run: "DialIP w protocol srcIP dstIP st = (Inr conn, st')"
  shows "filter isStore (added st st') = [EvStore (session conn) (getKey conn) (connId conn)]"
  using inv run by (rule DialIP_Inr) auto

lemma ListenIP_no_store:
  assumes "ListenIP w ip protocol st = (r, st')"
  shows "filter isStore (added st st') = []"
  using assms
proof (cases rule: ListenIP_cases)
  case (lookup_fails err)
  then show ?thesis by simp
next
  case (reuse ifc ps)
  from ListenIP_conn_fields(3) [OF reuse(3)] show ?thesis by simp
next
  case (open_fails ifc err)
  then show ?thesis by simp
next
  case (create ifc st3)
  from ListenIP_conn_fields(3) [OF create(8)] create(7) show ?thesis by simp
qed

lemma getKey_dialled:
  "getKey \<lparr>connId = i, session = ps, localAddress = src, remoteAddress = Remote dstIP,
           protocolIdentifier = protocol, dstMAC = m\<rparr> = (src, Remote dstIP, protocol)"
  by (simp add: getKey_def)

lemma nextHopIP_route:
  "routeTo w dstIP = Inr (src, ifc, gw) \<Longrightarrow>
     nextHopIP w dstIP = (case gw of None \<Rightarrow> dstIP | Some g \<Rightarrow> g)"
  by (simp add: nextHopIP_def)

text \<open>
  The capture handles a dial opens: one when the interface has no session in the map and a
  handle can be opened, none otherwise. So a dial that follows a successful dial for the
  same destination opens none.
\<close>

lemma DialIP_opens:
  assumes run: "DialIP w protocol srcIP dstIP st = (r, st')"
    and l: "localOf w srcIP dstIP = Inr (src, ifc, gw)"
  shows "filter isOpenLive (added st st') =
           (case map_of (pcapSessionMap (core st)) (Name ifc) of
              Some ps \<Rightarrow> []
            | None \<Rightarrow> (case openLive w ifc of None \<Rightarrow> [EvOpenLive (Name ifc)] | Some err \<Rightarrow> []))"
  using run
proof (cases rule: DialIP_cases)
  case (local_fails err)
  with l show ?thesis by simp
next
  case (reuse src' ifc' gw' ps)
  with l have eq: "ifc' = ifc" by simp
  from reuse(3) show ?thesis
    using reuse(2) eq
    by (cases rule: DialIP_conn_cases) (simp_all add: entryEvent_def split: option.splits)
next
  case (open_fails src' ifc' gw' err)
  with l show ?thesis by (simp add: entryEvent_def split: option.splits)
next
  case (create src' ifc' gw' st3)
  with l have eq: "ifc' = ifc" by simp
  from create(8) show ?thesis
    using create(2,3,7) eq
    by (cases rule: DialIP_conn_cases) (simp_all add: entryEvent_def split: option.splits)
qed

lemma second_dial_reuses:
  assumes inv: "wellformed st"
    and run1: "DialIP w protocol srcIP dstIP st = (Inr c1, st1)"
    and run2: "DialIP w protocol srcIP dstIP st1 = (r, st2)"
  shows "filter isOpenLive (added st1 st2) = []"
proof -
  from inv run1 obtain src ifc gw where
    l: "localOf w srcIP dstIP = Inr (src, ifc, gw)" and
    m: "map_of (pcapSessionMap (core st1)) (Name ifc) = Some (session c1)"
    by (rule DialIP_Inr)
  from DialIP_opens [OF run2 l] m show ?thesis by simp
qed

subsection \<open>The invariant is kept\<close>

text \<open>
  A new core is well formed, and \<^verbatim>\<open>DialIP\<close>, \<^verbatim>\<open>ListenIP\<close> and \<^verbatim>\<open>Close\<close> keep a
  well-formed state well formed, whatever they return.
\<close>

lemma wf_NewRawSocketCore: "wellformed (NewRawSocketCore cacheSeconds requestSeconds)"
  by (simp add: wellformed_def NewRawSocketCore_def)

lemma wf_emit [simp]: "wellformed (emit e st) = wellformed st"
  by (simp add: wellformed_def)

lemma wf_emits [simp]: "wellformed (emits es st) = wellformed st"
  by (simp add: wellformed_def)

lemma wf_DialIP:
  assumes inv: "wellformed st" and run: "DialIP w protocol srcIP dstIP st = (r, st')"
  shows "wellformed st'"
proof (cases r)
  case (Inr conn)
  with run have "DialIP w protocol srcIP dstIP st = (Inr conn, st')" by simp
  with inv show ?thesis by (rule DialIP_Inr)
next
  case (Inl e)
  from run show ?thesis
  proof (cases rule: DialIP_cases)
    case (local_fails err)
    with inv show ?thesis by simp
  next
    case (reuse src ifc gw ps)
    from reuse(3) show ?thesis
    proof (cases rule: DialIP_conn_cases)
      case timeout
      with inv show ?thesis by (simp add: wellformed_def)
    next
      case (connected mac conn)
      with Inl show ?thesis by simp
    qed
  next
    case (open_fails src ifc gw err)
    with inv show ?thesis by simp
  next
    case (create src ifc gw st3)
    from create(8) show ?thesis
    proof (cases rule: DialIP_conn_cases)
      case timeout
      show ?thesis
        using inv
        by (rule wf_new_session [where k = "Name ifc"])
           (simp_all add: timeout create nth_append newSession_def)
    next
      case (connected mac conn)
      with Inl show ?thesis by simp
    qed
  qed
qed

lemma wf_ListenIP:
  assumes inv: "wellformed st" and run: "ListenIP w ip protocol st = (r, st')"
  shows "wellformed st'"
  using run
proof (cases rule: ListenIP_cases)
  case (lookup_fails err)
  with inv show ?thesis by simp
next
  case (reuse ifc ps)
  let ?st2 = "emits [EvFindInterfaceByIP ip, EvLock, EvLoad (Name ifc), EvUnlock] st"
  from reuse(3) have
    c: "core st' = core ?st2" and
    l: "length (sessions st') = length (sessions ?st2)" and
    p: "\<And>a. a < length (sessions ?st2) \<Longrightarrow> params (sessions st' ! a) = params (sessions ?st2 ! a)"
    by (auto simp: ListenIP_conn_eq updSession_def nth_list_update)
  have "wellformed ?st2" using inv by simp
  then show ?thesis
    by (rule wf_same_params) (simp_all add: c l p)
next
  case (open_fails ifc err)
  with inv show ?thesis by simp
next
  case (create ifc st3)
  from create(8) have
    c: "core st' = core st3" and
    l: "length (sessions st') = length (sessions st3)" and
    p: "\<And>a. a < length (sessions st3) \<Longrightarrow> params (sessions st' ! a) = params (sessions st3 ! a)"
    by (auto simp: ListenIP_conn_eq updSession_def nth_list_update)
  show ?thesis
    using inv
    by (rule wf_new_session [where k = "Name ifc"])
       (simp_all add: c l p create nth_append newSession_def)
qed

lemma list_all_delete: "list_all P al \<Longrightarrow> list_all P (AList.delete k al)"
  by (simp add: AList.delete_eq list_all_iff)

lemma wf_ps_close:
  assumes "wellformed st" "ps_close ps st = Inr st'"
  shows "wellformed st'"
  using assms
  by (auto simp: ps_close_def sendCloseSig_def handlePcapSessionClose_def updSession_def wellformed_def
      nth_list_update split: if_splits intro!: list_all_delete)
     (auto simp: list_all_iff nth_list_update)

lemma wf_closeSessions:
  "wellformed st \<Longrightarrow> closeSessions as st = Inr st' \<Longrightarrow> wellformed st'"
proof (induction as arbitrary: st)
  case Nil
  then show ?case by simp
next
  case (Cons a as)
  from Cons.prems(2) obtain st1 where
    a: "ps_close a (emit (EvSessionClose a) st) = Inr st1" and
    rest: "closeSessions as st1 = Inr st'"
    by (auto split: sum.splits)
  have "wellformed (emit (EvSessionClose a) st)" using Cons.prems(1) by simp
  then have "wellformed st1" using a by (rule wf_ps_close)
  then show ?case using rest by (rule Cons.IH)
qed

lemma wf_Close:
  assumes "wellformed st" "Close w st = Inr st'"
  shows "wellformed st'"
proof (cases "isClosed (core st)")
  case True
  with assms show ?thesis by (simp add: Close_def)
next
  case False
  let ?st0 = "emits [EvLock, EvRange (snapshot w st), EvUnlock] (st\<lparr>core := (core st)\<lparr>isClosed := True\<rparr>\<rparr>)"
  from assms(2) False obtain st1 where
    c: "closeSessions (snapshot w st) ?st0 = Inr st1" and
    r: "pcapSessionMap (core st') = pcapSessionMap (core st1)" "sessions st' = sessions st1"
    by (auto simp: Close_def closeStopChan_def wgWait_def closeCloseSig_def arpCacheClose_def
        split: sum.splits if_splits)
  have "wellformed ?st0" using assms(1) by (simp add: wellformed_def)
  then have "wellformed st1" using c by (rule wf_closeSessions)
  with r show ?thesis by (simp add: wellformed_def)
qed

text \<open>\<^verbatim>\<open>DialIP\<close> and \<^verbatim>\<open>ListenIP\<close> leave a core that has not been shut down as such.\<close>

lemma live_NewRawSocketCore: "live (NewRawSocketCore cacheSeconds requestSeconds)"
  by (simp add: live_def NewRawSocketCore_def)

lemma live_DialIP:
  assumes "live st" and run: "DialIP w protocol srcIP dstIP st = (r, st')"
  shows "live st'"
  using run
proof (cases rule: DialIP_cases)
  case (local_fails err)
  with assms(1) show ?thesis by (simp add: live_def)
next
  case (reuse src ifc gw ps)
  from reuse(3) show ?thesis
    using assms(1) by (cases rule: DialIP_conn_cases) (simp_all add: live_def)
next
  case (open_fails src ifc gw err)
  with assms(1) show ?thesis by (simp add: live_def)
next
  case (create src ifc gw st3)
  from create(8) show ?thesis
    using assms(1) create(4) by (cases rule: DialIP_conn_cases) (simp_all add: live_def)
qed

lemma live_ListenIP:
  assumes "live st" and run: "ListenIP w ip protocol st = (r, st')"
  shows "live st'"
  using run
proof (cases rule: ListenIP_cases)
  case (lookup_fails err)
  with assms(1) show ?thesis by (simp add: live_def)
next
  case (reuse ifc ps)
  from ListenIP_conn_fields(1) [OF reuse(3)] assms(1) show ?thesis by (simp add: live_def)
next
  case (open_fails ifc err)
  with assms(1) show ?thesis by (simp add: live_def)
next
  case (create ifc st3)
  from ListenIP_conn_fields(1) [OF create(8)] assms(1) create(4) show ?thesis
    by (simp add: live_def)
qed

subsection \<open>One goroutine alone\<close>

text \<open>
  Scheduled alone, a goroutine that calls \<^verbatim>\<open>DialIP\<close> or \<^verbatim>\<open>ListenIP\<close> ends after
  five steps, with the result and the state of the sequential definition.
\<close>

lemma run_alone_DialIP:
  "run w [0, 0, 0, 0, 0] ([AtEntry (CallDialIP protocol srcIP dstIP)], st) =
     ([Returned (fst (DialIP w protocol srcIP dstIP st))], snd (DialIP w protocol srcIP dstIP st))"
proof -
  obtain q st1 where l: "DialIP_local w srcIP dstIP st = (q, st1)"
    by (cases "DialIP_local w srcIP dstIP st")
  show ?thesis
  proof (cases q)
    case (Inl err)
    with l show ?thesis by (simp add: stepAt_def DialIP_def)
  next
    case (Inr t)
    obtain src ifc gw where t: "t = (src, ifc, gw)" by (cases t)
    obtain o2 st2 where ld: "loadSession (Name ifc) st1 = (o2, st2)"
      by (cases "loadSession (Name ifc) st1")
    show ?thesis
    proof (cases o2)
      case (Some ps)
      obtain r st' where c: "DialIP_conn w ps src dstIP protocol st2 = (r, st')"
        by (cases "DialIP_conn w ps src dstIP protocol st2")
      from l Inr t ld Some c show ?thesis by (simp add: stepAt_def DialIP_def)
    next
      case None
      obtain n st3 where np: "newPcapSession w \<lparr>key = Name ifc, iface = ifc\<rparr>
                       \<lparr>conf_arpRequestTimeout = arpRequestTimeout (core st2)\<rparr>
                       (emit (EvNewPcapSession (Name ifc)) st2) = (n, st3)"
        by (cases "newPcapSession w \<lparr>key = Name ifc, iface = ifc\<rparr>
                       \<lparr>conf_arpRequestTimeout = arpRequestTimeout (core st2)\<rparr>
                       (emit (EvNewPcapSession (Name ifc)) st2)")
      show ?thesis
      proof (cases n)
        case (Inl err)
        with l Inr t ld None np show ?thesis by (simp add: stepAt_def DialIP_def)
      next
        case (Inr ps)
        obtain r st' where c: "DialIP_conn w ps src dstIP protocol (storeSession (Name ifc) ps st3) = (r, st')"
          by (cases "DialIP_conn w ps src dstIP protocol (storeSession (Name ifc) ps st3)")
        from l \<open>q = Inr t\<close> t ld None np Inr c show ?thesis by (simp add: stepAt_def DialIP_def)
      qed
    qed
  qed
qed

lemma run_alone_ListenIP:
  "run w [0, 0, 0, 0, 0] ([AtEntry (CallListenIP ip protocol)], st) =
     ([Returned (fst (ListenIP w ip protocol st))], snd (ListenIP w ip protocol st))"
proof -
  obtain q st1 where l: "findInterfaceByIP w ip st = (q, st1)"
    by (cases "findInterfaceByIP w ip st")
  show ?thesis
  proof (cases q)
    case (Inl err)
    with l show ?thesis by (simp add: stepAt_def ListenIP_def)
  next
    case (Inr ifc)
    obtain o2 st2 where ld: "loadSession (Name ifc) st1 = (o2, st2)"
      by (cases "loadSession (Name ifc) st1")
    show ?thesis
    proof (cases o2)
      case (Some ps)
      obtain r st' where c: "ListenIP_conn ps ip protocol st2 = (r, st')"
        by (cases "ListenIP_conn ps ip protocol st2")
      from l Inr ld Some c show ?thesis by (simp add: stepAt_def ListenIP_def)
    next
      case None
      obtain n st3 where np: "newPcapSession w \<lparr>key = Name ifc, iface = ifc\<rparr>
                       \<lparr>conf_arpRequestTimeout = arpRequestTimeout (core st2)\<rparr>
                       (emit (EvNewPcapSession (Name ifc)) st2) = (n, st3)"
        by (cases "newPcapSession w \<lparr>key = Name ifc, iface = ifc\<rparr>
                       \<lparr>conf_arpRequestTimeout = arpRequestTimeout (core st2)\<rparr>
                       (emit (EvNewPcapSession (Name ifc)) st2)")
      show ?thesis
      proof (cases n)
        case (Inl err)
        with l \<open>q = Inr ifc\<close> ld None np show ?thesis by (simp add: stepAt_def ListenIP_def)
      next
        case (Inr ps)
        obtain r st' where c: "ListenIP_conn ps ip protocol (storeSession (Name ifc) ps st3) = (r, st')"
          by (cases "ListenIP_conn ps ip protocol (storeSession (Name ifc) ps st3)")
        from l \<open>q = Inr ifc\<close> ld None np Inr c show ?thesis by (simp add: stepAt_def ListenIP_def)
      qed
    qed
  qed
qed

subsection \<open>The closed flag is not read\<close>

lemma setClosed_emit: "emit e (setClosed b st) = setClosed b (emit e st)"
  by (simp add: setClosed_def emit_def)

lemma setClosed_emits: "emits es (setClosed b st) = setClosed b (emits es st)"
  by (induction es arbitrary: st) (simp_all add: setClosed_emit)

lemma DialIP_local_setClosed:
  "DialIP_local w srcIP dstIP (setClosed b st) =
     (fst (DialIP_local w srcIP dstIP st), setClosed b (snd (DialIP_local w srcIP dstIP st)))"
  by (simp add: DialIP_local_eq setClosed_emit)

lemma findInterfaceByIP_setClosed:
  "findInterfaceByIP w ip (setClosed b st) =
     (fst (findInterfaceByIP w ip st), setClosed b (snd (findInterfaceByIP w ip st)))"
  by (simp add: findInterfaceByIP_def setClosed_emit)

lemma loadSession_setClosed:
  "loadSession k (setClosed b st) = (fst (loadSession k st), setClosed b (snd (loadSession k st)))"
  by (simp add: loadSession_def setClosed_emits del: emits.simps)

lemma newPcapSession_setClosed:
  "newPcapSession w pa co (setClosed b st) =
     (fst (newPcapSession w pa co st), setClosed b (snd (newPcapSession w pa co st)))"
  by (simp add: newPcapSession_def setClosed_def emit_def split: option.splits)

lemma storeSession_setClosed:
  "storeSession k ps (setClosed b st) = setClosed b (storeSession k ps st)"
  by (simp add: storeSession_def setClosed_def emit_def)

lemma DialIP_conn_setClosed:
  "DialIP_conn w ps src dstIP protocol (setClosed b st) =
     (fst (DialIP_conn w ps src dstIP protocol st),
      setClosed b (snd (DialIP_conn w ps src dstIP protocol st)))"
  by (simp add: DialIP_conn_def ps_dialIP_def Store_def updSession_def setClosed_def emit_def
      split: option.splits)

lemma ListenIP_conn_setClosed:
  "ListenIP_conn ps ip protocol (setClosed b st) =
     (fst (ListenIP_conn ps ip protocol st), setClosed b (snd (ListenIP_conn ps ip protocol st)))"
  by (simp add: ListenIP_conn_eq updSession_def setClosed_def emit_def)

lemma DialIP_setClosed:
  "DialIP w protocol srcIP dstIP (setClosed b st) =
     (fst (DialIP w protocol srcIP dstIP st), setClosed b (snd (DialIP w protocol srcIP dstIP st)))"
proof -
  obtain q st1 where l: "DialIP_local w srcIP dstIP st = (q, st1)"
    by (cases "DialIP_local w srcIP dstIP st")
  show ?thesis
  proof (cases q)
    case (Inl err)
    with l show ?thesis by (simp add: DialIP_def DialIP_local_setClosed)
  next
    case (Inr t)
    obtain src ifc gw where t: "t = (src, ifc, gw)" by (cases t)
    obtain n st3 where np: "newPcapSession w \<lparr>key = Name ifc, iface = ifc\<rparr>
                       \<lparr>conf_arpRequestTimeout = arpRequestTimeout (core st1)\<rparr>
                       (emit (EvNewPcapSession (Name ifc)) (snd (loadSession (Name ifc) st1))) = (n, st3)"
      by (cases "newPcapSession w \<lparr>key = Name ifc, iface = ifc\<rparr>
                       \<lparr>conf_arpRequestTimeout = arpRequestTimeout (core st1)\<rparr>
                       (emit (EvNewPcapSession (Name ifc)) (snd (loadSession (Name ifc) st1)))")
    have c: "core (snd (loadSession (Name ifc) st1)) = core st1" by (simp add: loadSession_def)
    show ?thesis
      using l Inr t np c
      by (cases "map_of (pcapSessionMap (core st1)) (Name ifc)"; cases n)
         (simp_all add: DialIP_def DialIP_local_setClosed loadSession_setClosed
            newPcapSession_setClosed storeSession_setClosed DialIP_conn_setClosed
            setClosed_emit loadSession_def [of _ st1] del: emits.simps)
  qed
qed

lemma ListenIP_setClosed:
  "ListenIP w ip protocol (setClosed b st) =
     (fst (ListenIP w ip protocol st), setClosed b (snd (ListenIP w ip protocol st)))"
proof -
  define st1 where "st1 = emit (EvFindInterfaceByIP ip) st"
  show ?thesis
  proof (cases "ifaceOfIP w ip")
    case (Inl err)
    then show ?thesis by (simp add: ListenIP_def findInterfaceByIP_def setClosed_emit)
  next
    case (Inr ifc)
    obtain n st3 where np: "newPcapSession w \<lparr>key = Name ifc, iface = ifc\<rparr>
                       \<lparr>conf_arpRequestTimeout = arpRequestTimeout (core st1)\<rparr>
                       (emit (EvNewPcapSession (Name ifc)) (snd (loadSession (Name ifc) st1))) = (n, st3)"
      by (cases "newPcapSession w \<lparr>key = Name ifc, iface = ifc\<rparr>
                       \<lparr>conf_arpRequestTimeout = arpRequestTimeout (core st1)\<rparr>
                       (emit (EvNewPcapSession (Name ifc)) (snd (loadSession (Name ifc) st1)))")
    show ?thesis
      using Inr np
      by (cases "map_of (pcapSessionMap (core st1)) (Name ifc)"; cases n)
         (simp_all add: ListenIP_def findInterfaceByIP_def st1_def loadSession_setClosed
            newPcapSession_setClosed storeSession_setClosed ListenIP_conn_setClosed
            setClosed_emit loadSession_def [of _ "emit (EvFindInterfaceByIP ip) st"] del: emits.simps)
  qed
qed

subsection \<open>Concrete runs\<close>

text \<open>The definitions a concrete run unfolds.\<close>

lemmas eval_defs = emit_def GetLocalIP_def findInterfaceByIP_def loadSession_def storeSession_def
  updSession_def Store_def getKey_def newPcapSession_def nextHopIP_def ps_dialIP_def ps_listenIP_def
  handlePcapSessionClose_def sendCloseSig_def ps_close_def NewRawSocketCore_def DialIP_local_def
  DialIP_conn_def DialIP_def ListenIP_conn_def ListenIP_def closeStopChan_def reaperReturns_def
  wgWait_def
  closeCloseSig_def arpCacheClose_def snapshot_def Close_def stepAt_def world0_def en0_def en1_def
  lo0_def
  closed0_def

section \<open>The next hop of a dial\<close>

text \<open>
  Claim C1. \<^verbatim>\<open>DialIP\<close> without a source address asks the route resolver, which gives
  source, interface and possibly a gateway. Whenever the call reaches the session's dial
  (the interface has a session, or one can be opened), exactly one address is resolved:
  the gateway when the route resolver supplied one, the destination itself when it
  supplied none. A connection that is returned carries the hardware address of that next
  hop. \<^verbatim>\<open>DialIP\<close> hands the session the source, the destination and the protocol; the
  session's choice of the next hop is the specification's rule, \<open>nextHopIP\<close>.
\<close>

theorem next_hop_is_gateway:
  assumes route: "routeTo w dstIP = Inr (src, ifc, gw)"
    and run: "DialIP w protocol None dstIP st = (r, st')"
  shows "resolved (added st st') =
           (case map_of (pcapSessionMap (core st)) (Name ifc) of
              Some ps \<Rightarrow> [case gw of None \<Rightarrow> dstIP | Some g \<Rightarrow> g]
            | None \<Rightarrow>
                (case openLive w ifc of
                   None \<Rightarrow> [case gw of None \<Rightarrow> dstIP | Some g \<Rightarrow> g]
                 | Some err \<Rightarrow> [])) \<and>
         (case r of
            Inr conn \<Rightarrow>
              dstMAC conn = arpReply w (case gw of None \<Rightarrow> dstIP | Some g \<Rightarrow> g) \<and>
              dstMAC conn \<noteq> None
          | Inl err \<Rightarrow> True)"
proof -
  have l: "localOf w None dstIP = Inr (src, ifc, gw)" using route by (simp add: localOf_def)
  note hop = nextHopIP_route [OF route]
  from run show ?thesis
  proof (cases rule: DialIP_cases)
    case (local_fails err)
    with l show ?thesis by simp
  next
    case (reuse src' ifc' gw' ps)
    with l have eq: "ifc' = ifc" by simp
    from reuse(3) show ?thesis
      using reuse(2) eq hop
      by (cases rule: DialIP_conn_cases) (simp_all add: entryEvent_def)
  next
    case (open_fails src' ifc' gw' err)
    with l show ?thesis by (simp add: entryEvent_def)
  next
    case (create src' ifc' gw' st3)
    with l have eq: "ifc' = ifc" by simp
    from create(8) show ?thesis
      using create(2,3,7) eq hop
      by (cases rule: DialIP_conn_cases) (simp_all add: entryEvent_def)
  qed
qed

theorem next_hop_is_gateway_witness:
  "routeTo world0 [8, 8, 8, 8] = Inr ([192, 168, 1, 10], en0, Some [192, 168, 1, 1]) \<and>
   resolved (added (NewRawSocketCore 60 2)
      (snd (DialIP world0 1 None [8, 8, 8, 8] (NewRawSocketCore 60 2)))) = [[192, 168, 1, 1]] \<and>
   routeTo world0 [192, 168, 1, 20] = Inr ([192, 168, 1, 10], en0, None) \<and>
   resolved (added (NewRawSocketCore 60 2)
      (snd (DialIP world0 1 None [192, 168, 1, 20] (NewRawSocketCore 60 2)))) = [[192, 168, 1, 20]]"
proof -
  have r1: "routeTo world0 [8, 8, 8, 8] = Inr ([192, 168, 1, 10], en0, Some [192, 168, 1, 1])"
    and r2: "routeTo world0 [192, 168, 1, 20] = Inr ([192, 168, 1, 10], en0, None)"
    by (simp_all add: world0_def)
  have o: "openLive world0 en0 = None" by (simp add: world0_def en0_def)
  have m: "map_of (pcapSessionMap (core (NewRawSocketCore 60 2))) (Name en0) = None"
    by (simp add: NewRawSocketCore_def)
  from next_hop_is_gateway [OF r1, where protocol = 1 and st = "NewRawSocketCore 60 2"
      and r = "fst (DialIP world0 1 None [8, 8, 8, 8] (NewRawSocketCore 60 2))"
      and st' = "snd (DialIP world0 1 None [8, 8, 8, 8] (NewRawSocketCore 60 2))"]
    next_hop_is_gateway [OF r2, where protocol = 1 and st = "NewRawSocketCore 60 2"
      and r = "fst (DialIP world0 1 None [192, 168, 1, 20] (NewRawSocketCore 60 2))"
      and st' = "snd (DialIP world0 1 None [192, 168, 1, 20] (NewRawSocketCore 60 2))"]
    r1 r2 o m
  show ?thesis by simp
qed

section \<open>Calls on a closed core\<close>

text \<open>
  Claim C2, as stated, fails. The core \<open>closed0\<close> is what \<^verbatim>\<open>Close\<close> leaves of a new
  core: the closed flag is set and the session map is empty. \<^verbatim>\<open>ListenIP\<close> and
  \<^verbatim>\<open>DialIP\<close> on it return a connection, not an error, and each puts a newly constructed
  session into the map.
\<close>

theorem dial_after_close_counterexample:
  "Close world0 (NewRawSocketCore 60 2) = Inr closed0 \<and>
   isClosed (core closed0) \<and>
   pcapSessionMap (core closed0) = [] \<and>
   fst (ListenIP world0 [192, 168, 1, 10] 1 closed0) =
     Inr \<lparr>connId = 0, session = 0, localAddress = [192, 168, 1, 10],
          remoteAddress = AnyRemote, protocolIdentifier = 1, dstMAC = None\<rparr> \<and>
   pcapSessionMap (core (snd (ListenIP world0 [192, 168, 1, 10] 1 closed0))) = [(''en0'', 0)] \<and>
   length (sessions (snd (ListenIP world0 [192, 168, 1, 10] 1 closed0))) = 1 \<and>
   fst (DialIP world0 1 None [8, 8, 8, 8] closed0) =
     Inr \<lparr>connId = 0, session = 0, localAddress = [192, 168, 1, 10],
          remoteAddress = Remote [8, 8, 8, 8], protocolIdentifier = 1,
          dstMAC = Some [0, 17, 34, 51, 68, 85]\<rparr> \<and>
   pcapSessionMap (core (snd (DialIP world0 1 None [8, 8, 8, 8] closed0))) = [(''en0'', 0)] \<and>
   length (sessions (snd (DialIP world0 1 None [8, 8, 8, 8] closed0))) = 1"
proof -
  have c: "Close world0 (NewRawSocketCore 60 2) = Inr closed0"
    by (simp add: eval_defs)
  have f: "isClosed (core closed0)" "pcapSessionMap (core closed0) = []"
    by (simp_all add: closed0_def)
  have l: "fst (ListenIP world0 [192, 168, 1, 10] 1 closed0) =
     Inr \<lparr>connId = 0, session = 0, localAddress = [192, 168, 1, 10],
          remoteAddress = AnyRemote, protocolIdentifier = 1, dstMAC = None\<rparr>"
    by (simp add: eval_defs)
  have ls: "pcapSessionMap (core (snd (ListenIP world0 [192, 168, 1, 10] 1 closed0))) = [(''en0'', 0)]"
    "length (sessions (snd (ListenIP world0 [192, 168, 1, 10] 1 closed0))) = 1"
    by (simp_all add: eval_defs)
  have d: "fst (DialIP world0 1 None [8, 8, 8, 8] closed0) =
     Inr \<lparr>connId = 0, session = 0, localAddress = [192, 168, 1, 10],
          remoteAddress = Remote [8, 8, 8, 8], protocolIdentifier = 1,
          dstMAC = Some [0, 17, 34, 51, 68, 85]\<rparr>"
    by (simp add: eval_defs)
  have ds: "pcapSessionMap (core (snd (DialIP world0 1 None [8, 8, 8, 8] closed0))) = [(''en0'', 0)]"
    "length (sessions (snd (DialIP world0 1 None [8, 8, 8, 8] closed0))) = 1"
    by (simp_all add: eval_defs)
  from c f l ls d ds show ?thesis by blast
qed

text \<open>
  Claim C2, amended. \<^verbatim>\<open>DialIP\<close> and \<^verbatim>\<open>ListenIP\<close> do not read the closed flag: whatever
  its value, a call returns the same result and changes the state in the same way, the
  flag keeping its value. So after \<^verbatim>\<open>Close\<close> a call behaves as on an open core; it
  constructs and inserts a session when the interface has none.
\<close>

theorem closed_flag_ignored:
  "DialIP w protocol srcIP dstIP (setClosed b st) =
     (fst (DialIP w protocol srcIP dstIP st), setClosed b (snd (DialIP w protocol srcIP dstIP st))) \<and>
   ListenIP w ip protocol (setClosed b st) =
     (fst (ListenIP w ip protocol st), setClosed b (snd (ListenIP w ip protocol st)))"
  using DialIP_setClosed ListenIP_setClosed by simp

section \<open>A dial without a source address\<close>

text \<open>
  Claim C7. When the route resolver answers for the destination, a \<^verbatim>\<open>DialIP\<close> without a
  source address that returns a connection returns one whose local address is the source
  address the route resolver gave; the session of the connection is the one the map holds
  under the name of the interface the route resolver gave, its key is that name, and the
  session's dial was called with that source address. The call fails only when no session
  can be constructed for the interface or when the next hop does not answer.
\<close>

theorem dial_without_source:
  assumes route: "routeTo w dstIP = Inr (src, ifc, gw)"
    and inv: "wellformed st"
    and run: "DialIP w protocol None dstIP st = (r, st')"
  shows "case r of
           Inr conn \<Rightarrow>
             localAddress conn = src \<and>
             map_of (pcapSessionMap (core st')) (Name ifc) = Some (session conn) \<and>
             session conn < length (sessions st') \<and>
             key (params (sessions st' ! session conn)) = Name ifc \<and>
             EvSessionDialIP (session conn) src dstIP protocol \<in> set (added st st')
         | Inl err \<Rightarrow>
             (map_of (pcapSessionMap (core st)) (Name ifc) = None \<and> openLive w ifc = Some err) \<or>
             (arpReply w (nextHopIP w dstIP) = None \<and> err = Error ''AddressResolutionTimeout'')"
proof -
  have l: "localOf w None dstIP = Inr (src, ifc, gw)" using route by (simp add: localOf_def)
  from run show ?thesis
  proof (cases rule: DialIP_cases)
    case (local_fails err)
    with l show ?thesis by simp
  next
    case (reuse src' ifc' gw' ps)
    with l have eq: "src' = src" "ifc' = ifc" by simp_all
    from wf_lookup [OF inv reuse(2)] have ps: "ps < length (sessions st)"
      "key (params (sessions st ! ps)) = Name ifc" using eq by simp_all
    from reuse(3) show ?thesis
      using ps reuse(2) eq
      by (cases rule: DialIP_conn_cases) (simp_all add: nth_list_update)
  next
    case (open_fails src' ifc' gw' err)
    with l show ?thesis by simp
  next
    case (create src' ifc' gw' st3)
    with l have eq: "src' = src" "ifc' = ifc" by simp_all
    from create(8) show ?thesis
      using eq create(4-7)
      by (cases rule: DialIP_conn_cases)
         (simp_all add: nth_list_update update_conv' newSession_def nth_append)
  qed
qed

theorem dial_without_source_witness:
  "routeTo world0 [8, 8, 8, 8] = Inr ([192, 168, 1, 10], en0, Some [192, 168, 1, 1]) \<and>
   wellformed (NewRawSocketCore 60 2) \<and>
   fst (DialIP world0 1 None [8, 8, 8, 8] (NewRawSocketCore 60 2)) =
     Inr \<lparr>connId = 0, session = 0, localAddress = [192, 168, 1, 10],
          remoteAddress = Remote [8, 8, 8, 8], protocolIdentifier = 1,
          dstMAC = Some [0, 17, 34, 51, 68, 85]\<rparr> \<and>
   map_of (pcapSessionMap (core (snd (DialIP world0 1 None [8, 8, 8, 8] (NewRawSocketCore 60 2))))) ''en0'' = Some 0 \<and>
   key (params (sessions (snd (DialIP world0 1 None [8, 8, 8, 8] (NewRawSocketCore 60 2))) ! 0)) = ''en0''"
proof -
  have r: "routeTo world0 [8, 8, 8, 8] = Inr ([192, 168, 1, 10], en0, Some [192, 168, 1, 1])"
    by (simp add: world0_def)
  have w: "wellformed (NewRawSocketCore 60 2)"
    by (simp add: wellformed_def NewRawSocketCore_def)
  have e: "fst (DialIP world0 1 None [8, 8, 8, 8] (NewRawSocketCore 60 2)) =
     Inr \<lparr>connId = 0, session = 0, localAddress = [192, 168, 1, 10],
          remoteAddress = Remote [8, 8, 8, 8], protocolIdentifier = 1,
          dstMAC = Some [0, 17, 34, 51, 68, 85]\<rparr>"
    by (simp add: eval_defs)
  have n: "Name en0 = ''en0''" by (simp add: en0_def)
  have x: "DialIP world0 1 None [8, 8, 8, 8] (NewRawSocketCore 60 2) =
     (fst (DialIP world0 1 None [8, 8, 8, 8] (NewRawSocketCore 60 2)),
      snd (DialIP world0 1 None [8, 8, 8, 8] (NewRawSocketCore 60 2)))"
    by simp
  from dial_without_source [OF r w x]
  have "map_of (pcapSessionMap (core (snd (DialIP world0 1 None [8, 8, 8, 8] (NewRawSocketCore 60 2))))) ''en0'' = Some 0 \<and>
   key (params (sessions (snd (DialIP world0 1 None [8, 8, 8, 8] (NewRawSocketCore 60 2))) ! 0)) = ''en0''"
    unfolding e n by simp
  with r w e show ?thesis by blast
qed

section \<open>Registering the connection\<close>

text \<open>
  Claim C8. A \<^verbatim>\<open>DialIP\<close> that returns a connection has stored it in the flow table of
  the connection's session under the connection's key, and the store is the last thing the
  call did. A \<^verbatim>\<open>DialIP\<close> that returns an error has stored nothing: the sessions that
  were there are as they were, a session constructed by the call has an empty flow table,
  and the call made no store; when the session's dial was called, the error is the one
  the session's dial returns.
\<close>

theorem dial_registers:
  assumes inv: "wellformed st" and run: "DialIP w protocol srcIP dstIP st = (r, st')"
  shows "case r of
           Inr conn \<Rightarrow>
             session conn < length (sessions st') \<and>
             map_of (rawIPConnMap (sessions st' ! session conn)) (getKey conn) = Some conn \<and>
             last (trace st') = EvStore (session conn) (getKey conn) (connId conn)
         | Inl err \<Rightarrow>
             take (length (sessions st)) (sessions st') = sessions st \<and>
             list_all (\<lambda>s. rawIPConnMap s = []) (drop (length (sessions st)) (sessions st')) \<and>
             filter isStore (added st st') = [] \<and>
             (filter isSessionDialIP (added st st') \<noteq> [] \<longrightarrow>
                err = Error ''AddressResolutionTimeout'' \<and>
                arpReply w (nextHopIP w dstIP) = None)"
proof (cases r)
  case (Inl err)
  with DialIP_Inl [of w protocol srcIP dstIP st err st'] run show ?thesis by simp
next
  case (Inr conn)
  with run have run': "DialIP w protocol srcIP dstIP st = (Inr conn, st')" by simp
  from inv run' show ?thesis
  proof (rule DialIP_Inr)
    fix src ifc gw mac
    assume tab: "rawIPConnMap (sessions st' ! session conn) =
       AList.update (getKey conn) conn (tableAt st (session conn))"
      and len: "session conn < length (sessions st')"
      and ev: "\<exists>evs. added st st' = evs @ [EvSessionDialIP (session conn) src dstIP protocol,
        EvResolve (session conn) (nextHopIP w dstIP),
        EvStore (session conn) (getKey conn) (connId conn)] \<and>
        filter isStore evs = [] \<and> resolved evs = [] \<and> filter isSessionDialIP evs = []"
    from ev obtain evs where a: "added st st' = evs @ [EvSessionDialIP (session conn) src dstIP protocol,
        EvResolve (session conn) (nextHopIP w dstIP),
        EvStore (session conn) (getKey conn) (connId conn)]" by blast
    have "trace st' \<noteq> [] \<and> last (trace st') = EvStore (session conn) (getKey conn) (connId conn)"
    proof -
      have "drop (length (trace st)) (trace st') \<noteq> []" using a by (simp add: added_def)
      moreover have "last (drop (length (trace st)) (trace st')) =
          EvStore (session conn) (getKey conn) (connId conn)"
        using a by (simp add: added_def)
      ultimately show ?thesis by (auto simp: last_drop)
    qed
    with tab len Inr show ?thesis by (simp add: update_conv')
  qed
qed

theorem dial_registers_witness:
  "wellformed (NewRawSocketCore 60 2) \<and>
   fst (DialIP world0 1 None [8, 8, 8, 8] (NewRawSocketCore 60 2)) =
     Inr \<lparr>connId = 0, session = 0, localAddress = [192, 168, 1, 10],
          remoteAddress = Remote [8, 8, 8, 8], protocolIdentifier = 1,
          dstMAC = Some [0, 17, 34, 51, 68, 85]\<rparr> \<and>
   map_of (rawIPConnMap (sessions (snd (DialIP world0 1 None [8, 8, 8, 8] (NewRawSocketCore 60 2))) ! 0))
     ([192, 168, 1, 10], Remote [8, 8, 8, 8], 1) =
     Some \<lparr>connId = 0, session = 0, localAddress = [192, 168, 1, 10],
          remoteAddress = Remote [8, 8, 8, 8], protocolIdentifier = 1,
          dstMAC = Some [0, 17, 34, 51, 68, 85]\<rparr> \<and>
   fst (DialIP world0 1 None [192, 168, 1, 30] (NewRawSocketCore 60 2)) = Inl (Error ''AddressResolutionTimeout'') \<and>
   list_all (\<lambda>s. rawIPConnMap s = []) (sessions (snd (DialIP world0 1 None [192, 168, 1, 30] (NewRawSocketCore 60 2)))) \<and>
   filter isStore (added (NewRawSocketCore 60 2) (snd (DialIP world0 1 None [192, 168, 1, 30] (NewRawSocketCore 60 2)))) = []"
proof -
  have w: "wellformed (NewRawSocketCore 60 2)"
    by (simp add: wellformed_def NewRawSocketCore_def)
  have e: "fst (DialIP world0 1 None [8, 8, 8, 8] (NewRawSocketCore 60 2)) =
     Inr \<lparr>connId = 0, session = 0, localAddress = [192, 168, 1, 10],
          remoteAddress = Remote [8, 8, 8, 8], protocolIdentifier = 1,
          dstMAC = Some [0, 17, 34, 51, 68, 85]\<rparr>"
    by (simp add: eval_defs)
  have f: "fst (DialIP world0 1 None [192, 168, 1, 30] (NewRawSocketCore 60 2)) = Inl (Error ''AddressResolutionTimeout'')"
    by (simp add: eval_defs)
  have l: "length (sessions (NewRawSocketCore 60 2)) = 0"
    by (simp add: NewRawSocketCore_def)
  have x: "DialIP world0 1 None [8, 8, 8, 8] (NewRawSocketCore 60 2) =
     (fst (DialIP world0 1 None [8, 8, 8, 8] (NewRawSocketCore 60 2)),
      snd (DialIP world0 1 None [8, 8, 8, 8] (NewRawSocketCore 60 2)))"
    by simp
  have y: "DialIP world0 1 None [192, 168, 1, 30] (NewRawSocketCore 60 2) =
     (fst (DialIP world0 1 None [192, 168, 1, 30] (NewRawSocketCore 60 2)),
      snd (DialIP world0 1 None [192, 168, 1, 30] (NewRawSocketCore 60 2)))"
    by simp
  from dial_registers [OF w x]
  have s: "map_of (rawIPConnMap (sessions (snd (DialIP world0 1 None [8, 8, 8, 8] (NewRawSocketCore 60 2))) ! 0))
     ([192, 168, 1, 10], Remote [8, 8, 8, 8], 1) =
     Some \<lparr>connId = 0, session = 0, localAddress = [192, 168, 1, 10],
          remoteAddress = Remote [8, 8, 8, 8], protocolIdentifier = 1,
          dstMAC = Some [0, 17, 34, 51, 68, 85]\<rparr>"
    unfolding e by (simp add: getKey_def)
  from dial_registers [OF w y]
  have t: "list_all (\<lambda>s. rawIPConnMap s = []) (sessions (snd (DialIP world0 1 None [192, 168, 1, 30] (NewRawSocketCore 60 2)))) \<and>
   filter isStore (added (NewRawSocketCore 60 2) (snd (DialIP world0 1 None [192, 168, 1, 30] (NewRawSocketCore 60 2)))) = []"
    unfolding f l by simp
  from w e s f t show ?thesis by blast
qed

section \<open>Listening stores nothing, dialling overwrites\<close>

text \<open>
  What lines 143 to 148 do with the outcome of the session's listen: an error is wrapped,
  a connection is passed on, the state is left as the session's listen left it.
\<close>

lemma ListenIP_conn_passes:
  "ListenIP_conn ps ip protocol st =
     map_prod (map_sum (\<lambda>err. Errorf ''rawSocketCore.ListenIP: %s'' [ArgErr err]) id) id
       (ps_listenIP ps ip protocol (emit (EvSessionListenIP ps ip protocol) st))"
  by (simp add: ListenIP_conn_def split: prod.splits sum.splits)

lemma ListenIP_reuse_eq:
  assumes "ifaceOfIP w ip = Inr ifc"
    and "map_of (pcapSessionMap (core st)) (Name ifc) = Some ps"
  shows "ListenIP w ip protocol st =
     ListenIP_conn ps ip protocol
       (emits [EvFindInterfaceByIP ip, EvLock, EvLoad (Name ifc), EvUnlock] st)"
  using assms by (simp add: ListenIP_def findInterfaceByIP_def loadSession_def)

lemma ListenIP_create_eq:
  assumes "ifaceOfIP w ip = Inr ifc"
    and "map_of (pcapSessionMap (core st)) (Name ifc) = None"
    and "openLive w ifc = None"
  shows "ListenIP w ip protocol st =
     ListenIP_conn (length (sessions st)) ip protocol
       (storeSession (Name ifc) (length (sessions st))
          ((emits [EvFindInterfaceByIP ip, EvLock, EvLoad (Name ifc), EvUnlock,
                   EvNewPcapSession (Name ifc), EvOpenLive (Name ifc)] st)
             \<lparr>sessions := sessions st @ [newSession ifc st]\<rparr>))"
  using assms
  by (simp add: ListenIP_def findInterfaceByIP_def loadSession_def newPcapSession_def
      newSession_def)

text \<open>
  Claim C10. \<^verbatim>\<open>ListenIP\<close> does nothing after the session's listen: with a session for
  the interface in the map, or with one that can be constructed, the result and the state
  of \<^verbatim>\<open>ListenIP\<close> are the result and the state of the session's listen, called on the
  state the lookup or the construction left, an error wrapped and a connection passed on
  as it is, and the registry made no store into a flow table. A \<^verbatim>\<open>DialIP\<close> that
  returns a connection makes one store, under the connection's key, and afterwards the
  session's table is the table before with that key mapped to the connection, whatever it
  was mapped to. So when the same dial is repeated, the second connection has the key and
  the session of the first, is another connection, and takes the first one's place: the
  table has the same keys and the key now leads to the second connection.
\<close>

theorem store_overwrites:
  assumes inv: "wellformed st"
  shows
   "(ifaceOfIP w ip = Inr ifc \<and> map_of (pcapSessionMap (core st)) (Name ifc) = Some ps \<longrightarrow>
       ListenIP w ip protocol st =
         map_prod (map_sum (\<lambda>err. Errorf ''rawSocketCore.ListenIP: %s'' [ArgErr err]) id) id
           (ps_listenIP ps ip protocol
              (emits [EvFindInterfaceByIP ip, EvLock, EvLoad (Name ifc), EvUnlock,
                      EvSessionListenIP ps ip protocol] st))) \<and>
    (ifaceOfIP w ip = Inr ifc \<and> map_of (pcapSessionMap (core st)) (Name ifc) = None \<and>
     openLive w ifc = None \<longrightarrow>
       ListenIP w ip protocol st =
         map_prod (map_sum (\<lambda>err. Errorf ''rawSocketCore.ListenIP: %s'' [ArgErr err]) id) id
           (ps_listenIP (length (sessions st)) ip protocol
              (emit (EvSessionListenIP (length (sessions st)) ip protocol)
                 (storeSession (Name ifc) (length (sessions st))
                    ((emits [EvFindInterfaceByIP ip, EvLock, EvLoad (Name ifc), EvUnlock,
                             EvNewPcapSession (Name ifc), EvOpenLive (Name ifc)] st)
                       \<lparr>sessions := sessions st @ [newSession ifc st]\<rparr>))))) \<and>
    filter isStore (added st (snd (ListenIP w ip protocol st))) = [] \<and>
    (DialIP w protocol srcIP dstIP st = (Inr c1, st1) \<longrightarrow>
       filter isStore (added st st1) = [EvStore (session c1) (getKey c1) (connId c1)] \<and>
       map_of (rawIPConnMap (sessions st1 ! session c1)) =
         (map_of (tableAt st (session c1)))(getKey c1 \<mapsto> c1)) \<and>
    (DialIP w protocol srcIP dstIP st = (Inr c1, st1) \<and>
     DialIP w protocol srcIP dstIP st1 = (Inr c2, st2) \<longrightarrow>
       getKey c2 = getKey c1 \<and> session c2 = session c1 \<and> connId c2 \<noteq> connId c1 \<and>
       map_of (rawIPConnMap (sessions st1 ! session c1)) (getKey c1) = Some c1 \<and>
       map_of (rawIPConnMap (sessions st2 ! session c1)) (getKey c1) = Some c2 \<and>
       map fst (rawIPConnMap (sessions st2 ! session c1)) =
         map fst (rawIPConnMap (sessions st1 ! session c1)))"
proof (intro conjI impI)
  assume "ifaceOfIP w ip = Inr ifc \<and> map_of (pcapSessionMap (core st)) (Name ifc) = Some ps"
  then have "ListenIP w ip protocol st =
     ListenIP_conn ps ip protocol
       (emits [EvFindInterfaceByIP ip, EvLock, EvLoad (Name ifc), EvUnlock] st)"
    by (simp add: ListenIP_reuse_eq)
  then show "ListenIP w ip protocol st =
         map_prod (map_sum (\<lambda>err. Errorf ''rawSocketCore.ListenIP: %s'' [ArgErr err]) id) id
           (ps_listenIP ps ip protocol
              (emits [EvFindInterfaceByIP ip, EvLock, EvLoad (Name ifc), EvUnlock,
                      EvSessionListenIP ps ip protocol] st))"
    by (simp add: ListenIP_conn_passes)
next
  assume "ifaceOfIP w ip = Inr ifc \<and> map_of (pcapSessionMap (core st)) (Name ifc) = None \<and>
     openLive w ifc = None"
  then have "ListenIP w ip protocol st =
     ListenIP_conn (length (sessions st)) ip protocol
       (storeSession (Name ifc) (length (sessions st))
          ((emits [EvFindInterfaceByIP ip, EvLock, EvLoad (Name ifc), EvUnlock,
                   EvNewPcapSession (Name ifc), EvOpenLive (Name ifc)] st)
             \<lparr>sessions := sessions st @ [newSession ifc st]\<rparr>))"
    by (simp add: ListenIP_create_eq)
  then show "ListenIP w ip protocol st =
         map_prod (map_sum (\<lambda>err. Errorf ''rawSocketCore.ListenIP: %s'' [ArgErr err]) id) id
           (ps_listenIP (length (sessions st)) ip protocol
              (emit (EvSessionListenIP (length (sessions st)) ip protocol)
                 (storeSession (Name ifc) (length (sessions st))
                    ((emits [EvFindInterfaceByIP ip, EvLock, EvLoad (Name ifc), EvUnlock,
                             EvNewPcapSession (Name ifc), EvOpenLive (Name ifc)] st)
                       \<lparr>sessions := sessions st @ [newSession ifc st]\<rparr>))))"
    by (simp only: ListenIP_conn_passes)
next
  show "filter isStore (added st (snd (ListenIP w ip protocol st))) = []"
    using ListenIP_no_store [of w ip protocol st] by (cases "ListenIP w ip protocol st") simp
next
  assume run: "DialIP w protocol srcIP dstIP st = (Inr c1, st1)"
  show "filter isStore (added st st1) = [EvStore (session c1) (getKey c1) (connId c1)]"
    using inv run by (rule DialIP_stores_once)
  show "map_of (rawIPConnMap (sessions st1 ! session c1)) =
         (map_of (tableAt st (session c1)))(getKey c1 \<mapsto> c1)"
    using inv run by (rule DialIP_Inr) (simp add: update_conv')
next
  assume runs: "DialIP w protocol srcIP dstIP st = (Inr c1, st1) \<and>
     DialIP w protocol srcIP dstIP st1 = (Inr c2, st2)"
  then have run1: "DialIP w protocol srcIP dstIP st = (Inr c1, st1)"
    and run2: "DialIP w protocol srcIP dstIP st1 = (Inr c2, st2)" by simp_all
  from inv run1 obtain src ifc gw mac where
    l: "localOf w srcIP dstIP = Inr (src, ifc, gw)" and
    c1: "c1 = \<lparr>connId = nextConn st, session = session c1, localAddress = src,
             remoteAddress = Remote dstIP, protocolIdentifier = protocol, dstMAC = Some mac\<rparr>" and
    m1: "map_of (pcapSessionMap (core st1)) (Name ifc) = Some (session c1)" and
    len1: "session c1 < length (sessions st1)" and
    n1: "nextConn st1 = Suc (nextConn st)" and
    t1: "rawIPConnMap (sessions st1 ! session c1) =
           AList.update (getKey c1) c1 (tableAt st (session c1))" and
    wf1: "wellformed st1"
    by (rule DialIP_Inr)
  from wf1 run2 obtain src' ifc' gw' mac' where
    l': "localOf w srcIP dstIP = Inr (src', ifc', gw')" and
    c2: "c2 = \<lparr>connId = nextConn st1, session = session c2, localAddress = src',
             remoteAddress = Remote dstIP, protocolIdentifier = protocol, dstMAC = Some mac'\<rparr>" and
    t2: "rawIPConnMap (sessions st2 ! session c2) =
           AList.update (getKey c2) c2 (tableAt st1 (session c2))"
    by (rule DialIP_Inr)
  from l l' have eq: "src' = src" "ifc' = ifc" by simp_all
  have s: "session c2 = session c1"
    using run2 l m1 by (rule DialIP_Inr_reuses)
  have k1: "getKey c1 = (src, Remote dstIP, protocol)"
    by (subst c1) (simp only: getKey_dialled)
  have k2: "getKey c2 = (src, Remote dstIP, protocol)"
    by (subst c2) (simp only: getKey_dialled eq)
  have i1: "connId c1 = nextConn st" by (subst c1) simp
  have i2: "connId c2 = Suc (nextConn st)" by (subst c2) (simp add: n1)
  have tab1: "tableAt st1 (session c1) = AList.update (getKey c1) c1 (tableAt st (session c1))"
    using len1 t1 by (simp add: tableAt_def)
  show "getKey c2 = getKey c1" using k1 k2 by simp
  show "session c2 = session c1" by (rule s)
  show "connId c2 \<noteq> connId c1" using i1 i2 by simp
  show "map_of (rawIPConnMap (sessions st1 ! session c1)) (getKey c1) = Some c1"
    using t1 by (simp add: update_conv')
  show "map_of (rawIPConnMap (sessions st2 ! session c1)) (getKey c1) = Some c2"
    using t2 s k1 k2 by (simp add: update_conv')
  show "map fst (rawIPConnMap (sessions st2 ! session c1)) =
         map fst (rawIPConnMap (sessions st1 ! session c1))"
    using t2 t1 s k1 k2 tab1 by (simp add: update_keys)
qed

theorem store_overwrites_witness:
  "wellformed (NewRawSocketCore 60 2) \<and>
   ListenIP world0 [192, 168, 1, 10] 1 (NewRawSocketCore 60 2) =
     map_prod (map_sum (\<lambda>err. Errorf ''rawSocketCore.ListenIP: %s'' [ArgErr err]) id) id
       (ps_listenIP 0 [192, 168, 1, 10] 1
          (emit (EvSessionListenIP 0 [192, 168, 1, 10] 1)
             (storeSession ''en0'' 0
                ((emits [EvFindInterfaceByIP [192, 168, 1, 10], EvLock, EvLoad ''en0'', EvUnlock,
                         EvNewPcapSession ''en0'', EvOpenLive ''en0''] (NewRawSocketCore 60 2))
                   \<lparr>sessions := sessions (NewRawSocketCore 60 2) @ [newSession en0 (NewRawSocketCore 60 2)]\<rparr>)))) \<and>
   ListenIP world0 [192, 168, 1, 10] 1 (snd (DialIP world0 1 None [8, 8, 8, 8] (NewRawSocketCore 60 2))) =
     map_prod (map_sum (\<lambda>err. Errorf ''rawSocketCore.ListenIP: %s'' [ArgErr err]) id) id
       (ps_listenIP 0 [192, 168, 1, 10] 1
          (emits [EvFindInterfaceByIP [192, 168, 1, 10], EvLock, EvLoad ''en0'', EvUnlock,
                  EvSessionListenIP 0 [192, 168, 1, 10] 1]
             (snd (DialIP world0 1 None [8, 8, 8, 8] (NewRawSocketCore 60 2))))) \<and>
   ListenIP world0 [192, 168, 1, 10] 1 (snd (DialIP world0 1 None [8, 8, 8, 8] (NewRawSocketCore 60 2))) =
     (Inr \<lparr>connId = 1, session = 0, localAddress = [192, 168, 1, 10],
          remoteAddress = AnyRemote, protocolIdentifier = 1, dstMAC = None\<rparr>,
      snd (ListenIP world0 [192, 168, 1, 10] 1 (snd (DialIP world0 1 None [8, 8, 8, 8] (NewRawSocketCore 60 2))))) \<and>
   rawIPConnMap (sessions (snd (ListenIP world0 [192, 168, 1, 10] 1 (snd (DialIP world0 1 None [8, 8, 8, 8] (NewRawSocketCore 60 2))))) ! 0) =
     [(([192, 168, 1, 10], Remote [8, 8, 8, 8], 1),
       \<lparr>connId = 0, session = 0, localAddress = [192, 168, 1, 10],
          remoteAddress = Remote [8, 8, 8, 8], protocolIdentifier = 1,
          dstMAC = Some [0, 17, 34, 51, 68, 85]\<rparr>),
      (([192, 168, 1, 10], AnyRemote, 1),
       \<lparr>connId = 1, session = 0, localAddress = [192, 168, 1, 10],
          remoteAddress = AnyRemote, protocolIdentifier = 1, dstMAC = None\<rparr>)] \<and>
   filter isStore (added (snd (DialIP world0 1 None [8, 8, 8, 8] (NewRawSocketCore 60 2)))
      (snd (ListenIP world0 [192, 168, 1, 10] 1 (snd (DialIP world0 1 None [8, 8, 8, 8] (NewRawSocketCore 60 2)))))) = [] \<and>
   DialIP world0 1 None [8, 8, 8, 8] (NewRawSocketCore 60 2) =
     (Inr \<lparr>connId = 0, session = 0, localAddress = [192, 168, 1, 10],
          remoteAddress = Remote [8, 8, 8, 8], protocolIdentifier = 1,
          dstMAC = Some [0, 17, 34, 51, 68, 85]\<rparr>,
      snd (DialIP world0 1 None [8, 8, 8, 8] (NewRawSocketCore 60 2))) \<and>
   DialIP world0 1 None [8, 8, 8, 8] (snd (DialIP world0 1 None [8, 8, 8, 8] (NewRawSocketCore 60 2))) =
     (Inr \<lparr>connId = 1, session = 0, localAddress = [192, 168, 1, 10],
          remoteAddress = Remote [8, 8, 8, 8], protocolIdentifier = 1,
          dstMAC = Some [0, 17, 34, 51, 68, 85]\<rparr>,
      snd (DialIP world0 1 None [8, 8, 8, 8] (snd (DialIP world0 1 None [8, 8, 8, 8] (NewRawSocketCore 60 2))))) \<and>
   getKey \<lparr>connId = 1, session = 0, localAddress = [192, 168, 1, 10],
          remoteAddress = Remote [8, 8, 8, 8], protocolIdentifier = 1,
          dstMAC = Some [0, 17, 34, 51, 68, 85]\<rparr> =
   getKey \<lparr>connId = 0, session = 0, localAddress = [192, 168, 1, 10],
          remoteAddress = Remote [8, 8, 8, 8], protocolIdentifier = 1,
          dstMAC = Some [0, 17, 34, 51, 68, 85]\<rparr> \<and>
   map_of (rawIPConnMap (sessions (snd (DialIP world0 1 None [8, 8, 8, 8] (snd (DialIP world0 1 None [8, 8, 8, 8] (NewRawSocketCore 60 2))))) ! 0))
     (getKey \<lparr>connId = 0, session = 0, localAddress = [192, 168, 1, 10],
          remoteAddress = Remote [8, 8, 8, 8], protocolIdentifier = 1,
          dstMAC = Some [0, 17, 34, 51, 68, 85]\<rparr>) =
     Some \<lparr>connId = 1, session = 0, localAddress = [192, 168, 1, 10],
          remoteAddress = Remote [8, 8, 8, 8], protocolIdentifier = 1,
          dstMAC = Some [0, 17, 34, 51, 68, 85]\<rparr>"
proof -
  have w: "wellformed (NewRawSocketCore 60 2)"
    by (simp add: wellformed_def NewRawSocketCore_def)
  have e1: "fst (DialIP world0 1 None [8, 8, 8, 8] (NewRawSocketCore 60 2)) =
     Inr \<lparr>connId = 0, session = 0, localAddress = [192, 168, 1, 10],
          remoteAddress = Remote [8, 8, 8, 8], protocolIdentifier = 1,
          dstMAC = Some [0, 17, 34, 51, 68, 85]\<rparr>"
    by (simp add: eval_defs)
  have e2: "fst (DialIP world0 1 None [8, 8, 8, 8] (snd (DialIP world0 1 None [8, 8, 8, 8] (NewRawSocketCore 60 2)))) =
     Inr \<lparr>connId = 1, session = 0, localAddress = [192, 168, 1, 10],
          remoteAddress = Remote [8, 8, 8, 8], protocolIdentifier = 1,
          dstMAC = Some [0, 17, 34, 51, 68, 85]\<rparr>"
    by (simp add: eval_defs)
  have p1: "DialIP world0 1 None [8, 8, 8, 8] (NewRawSocketCore 60 2) =
     (Inr \<lparr>connId = 0, session = 0, localAddress = [192, 168, 1, 10],
          remoteAddress = Remote [8, 8, 8, 8], protocolIdentifier = 1,
          dstMAC = Some [0, 17, 34, 51, 68, 85]\<rparr>,
      snd (DialIP world0 1 None [8, 8, 8, 8] (NewRawSocketCore 60 2)))"
    using e1 by (simp add: prod_eq_iff)
  have p2: "DialIP world0 1 None [8, 8, 8, 8] (snd (DialIP world0 1 None [8, 8, 8, 8] (NewRawSocketCore 60 2))) =
     (Inr \<lparr>connId = 1, session = 0, localAddress = [192, 168, 1, 10],
          remoteAddress = Remote [8, 8, 8, 8], protocolIdentifier = 1,
          dstMAC = Some [0, 17, 34, 51, 68, 85]\<rparr>,
      snd (DialIP world0 1 None [8, 8, 8, 8] (snd (DialIP world0 1 None [8, 8, 8, 8] (NewRawSocketCore 60 2)))))"
    using e2 by (simp add: prod_eq_iff)
  have w1: "wellformed (snd (DialIP world0 1 None [8, 8, 8, 8] (NewRawSocketCore 60 2)))"
    using w p1 by (rule wf_DialIP)
  have i: "ifaceOfIP world0 [192, 168, 1, 10] = Inr en0"
    by (simp add: world0_def)
  have n: "Name en0 = ''en0''"
    by (simp add: en0_def)
  have m0: "map_of (pcapSessionMap (core (NewRawSocketCore 60 2))) (Name en0) = None"
    by (simp add: NewRawSocketCore_def)
  have o: "openLive world0 en0 = None"
    by (simp add: world0_def en0_def)
  have m1: "map_of (pcapSessionMap (core (snd (DialIP world0 1 None [8, 8, 8, 8] (NewRawSocketCore 60 2))))) (Name en0) = Some 0"
    by (simp add: eval_defs)
  have l0: "length (sessions (NewRawSocketCore 60 2)) = 0"
    by (simp add: NewRawSocketCore_def)
  from store_overwrites [OF w, where w = world0 and ip = "[192, 168, 1, 10]" and protocol = 1
      and ifc = en0] i m0 o
  have cr: "ListenIP world0 [192, 168, 1, 10] 1 (NewRawSocketCore 60 2) =
     map_prod (map_sum (\<lambda>err. Errorf ''rawSocketCore.ListenIP: %s'' [ArgErr err]) id) id
       (ps_listenIP 0 [192, 168, 1, 10] 1
          (emit (EvSessionListenIP 0 [192, 168, 1, 10] 1)
             (storeSession ''en0'' 0
                ((emits [EvFindInterfaceByIP [192, 168, 1, 10], EvLock, EvLoad ''en0'', EvUnlock,
                         EvNewPcapSession ''en0'', EvOpenLive ''en0''] (NewRawSocketCore 60 2))
                   \<lparr>sessions := sessions (NewRawSocketCore 60 2) @ [newSession en0 (NewRawSocketCore 60 2)]\<rparr>))))"
    unfolding l0 n by blast
  from store_overwrites [OF w1, where w = world0 and ip = "[192, 168, 1, 10]" and protocol = 1
      and ifc = en0 and ps = 0] i m1
  have re: "ListenIP world0 [192, 168, 1, 10] 1 (snd (DialIP world0 1 None [8, 8, 8, 8] (NewRawSocketCore 60 2))) =
     map_prod (map_sum (\<lambda>err. Errorf ''rawSocketCore.ListenIP: %s'' [ArgErr err]) id) id
       (ps_listenIP 0 [192, 168, 1, 10] 1
          (emits [EvFindInterfaceByIP [192, 168, 1, 10], EvLock, EvLoad ''en0'', EvUnlock,
                  EvSessionListenIP 0 [192, 168, 1, 10] 1]
             (snd (DialIP world0 1 None [8, 8, 8, 8] (NewRawSocketCore 60 2)))))"
   and ls: "filter isStore (added (snd (DialIP world0 1 None [8, 8, 8, 8] (NewRawSocketCore 60 2)))
      (snd (ListenIP world0 [192, 168, 1, 10] 1 (snd (DialIP world0 1 None [8, 8, 8, 8] (NewRawSocketCore 60 2)))))) = []"
    unfolding n by blast+
  have l: "fst (ListenIP world0 [192, 168, 1, 10] 1 (snd (DialIP world0 1 None [8, 8, 8, 8] (NewRawSocketCore 60 2)))) =
     Inr \<lparr>connId = 1, session = 0, localAddress = [192, 168, 1, 10],
          remoteAddress = AnyRemote, protocolIdentifier = 1, dstMAC = None\<rparr>"
    by (simp add: eval_defs)
  have pl: "ListenIP world0 [192, 168, 1, 10] 1 (snd (DialIP world0 1 None [8, 8, 8, 8] (NewRawSocketCore 60 2))) =
     (Inr \<lparr>connId = 1, session = 0, localAddress = [192, 168, 1, 10],
          remoteAddress = AnyRemote, protocolIdentifier = 1, dstMAC = None\<rparr>,
      snd (ListenIP world0 [192, 168, 1, 10] 1 (snd (DialIP world0 1 None [8, 8, 8, 8] (NewRawSocketCore 60 2)))))"
    using l by (simp add: prod_eq_iff)
  have lt: "rawIPConnMap (sessions (snd (ListenIP world0 [192, 168, 1, 10] 1 (snd (DialIP world0 1 None [8, 8, 8, 8] (NewRawSocketCore 60 2))))) ! 0) =
     [(([192, 168, 1, 10], Remote [8, 8, 8, 8], 1),
       \<lparr>connId = 0, session = 0, localAddress = [192, 168, 1, 10],
          remoteAddress = Remote [8, 8, 8, 8], protocolIdentifier = 1,
          dstMAC = Some [0, 17, 34, 51, 68, 85]\<rparr>),
      (([192, 168, 1, 10], AnyRemote, 1),
       \<lparr>connId = 1, session = 0, localAddress = [192, 168, 1, 10],
          remoteAddress = AnyRemote, protocolIdentifier = 1, dstMAC = None\<rparr>)]"
    by (simp add: eval_defs)
  have s: "session \<lparr>connId = 0, session = 0, localAddress = [192, 168, 1, 10],
          remoteAddress = Remote [8, 8, 8, 8], protocolIdentifier = 1,
          dstMAC = Some [0, 17, 34, 51, 68, 85]\<rparr> = 0" by simp
  from store_overwrites [OF w, where w = world0 and ip = "[192, 168, 1, 10]" and protocol = 1
      and srcIP = None and dstIP = "[8, 8, 8, 8]"
      and ?c1.0 = "\<lparr>connId = 0, session = 0, localAddress = [192, 168, 1, 10],
          remoteAddress = Remote [8, 8, 8, 8], protocolIdentifier = 1,
          dstMAC = Some [0, 17, 34, 51, 68, 85]\<rparr>"
      and ?st1.0 = "snd (DialIP world0 1 None [8, 8, 8, 8] (NewRawSocketCore 60 2))"
      and ?c2.0 = "\<lparr>connId = 1, session = 0, localAddress = [192, 168, 1, 10],
          remoteAddress = Remote [8, 8, 8, 8], protocolIdentifier = 1,
          dstMAC = Some [0, 17, 34, 51, 68, 85]\<rparr>"
      and ?st2.0 = "snd (DialIP world0 1 None [8, 8, 8, 8] (snd (DialIP world0 1 None [8, 8, 8, 8] (NewRawSocketCore 60 2))))"]
    p1 p2
  have d: "getKey \<lparr>connId = 1, session = 0, localAddress = [192, 168, 1, 10],
          remoteAddress = Remote [8, 8, 8, 8], protocolIdentifier = 1,
          dstMAC = Some [0, 17, 34, 51, 68, 85]\<rparr> =
   getKey \<lparr>connId = 0, session = 0, localAddress = [192, 168, 1, 10],
          remoteAddress = Remote [8, 8, 8, 8], protocolIdentifier = 1,
          dstMAC = Some [0, 17, 34, 51, 68, 85]\<rparr> \<and>
   map_of (rawIPConnMap (sessions (snd (DialIP world0 1 None [8, 8, 8, 8] (snd (DialIP world0 1 None [8, 8, 8, 8] (NewRawSocketCore 60 2))))) ! 0))
     (getKey \<lparr>connId = 0, session = 0, localAddress = [192, 168, 1, 10],
          remoteAddress = Remote [8, 8, 8, 8], protocolIdentifier = 1,
          dstMAC = Some [0, 17, 34, 51, 68, 85]\<rparr>) =
     Some \<lparr>connId = 1, session = 0, localAddress = [192, 168, 1, 10],
          remoteAddress = Remote [8, 8, 8, 8], protocolIdentifier = 1,
          dstMAC = Some [0, 17, 34, 51, 68, 85]\<rparr>"
    unfolding s by blast
  from w cr re pl lt ls p1 p2 d show ?thesis by blast
qed

section \<open>Two callers at once\<close>

text \<open>
  Claim C3 asks that concurrent calls for one interface construct one session and open one
  handle, the caller that constructed a session looking at the map again before it
  inserts. Lines 95 to 97 and 138 to 140 insert without looking. Two goroutines call
  \<^verbatim>\<open>DialIP\<close> for 8.8.8.8 on a new core and move in turn: both read the map before either
  writes it, both find no session for \<open>en0\<close>, both open a handle, and the second insert
  replaces the first. The two connections belong to two sessions, and the map knows the
  second only. The same happens when the first goroutine calls \<^verbatim>\<open>ListenIP\<close> for
  192.168.1.10 instead.
\<close>

theorem concurrent_dial_two_handles:
  "map returnedSession (fst (run world0 [0, 1, 0, 1, 0, 1, 0, 1, 0, 1]
        ([AtEntry (CallDialIP 1 None [8, 8, 8, 8]), AtEntry (CallDialIP 1 None [8, 8, 8, 8])],
         NewRawSocketCore 60 2))) = [Some 0, Some 1] \<and>
   filter isOpenLive (trace (snd (run world0 [0, 1, 0, 1, 0, 1, 0, 1, 0, 1]
        ([AtEntry (CallDialIP 1 None [8, 8, 8, 8]), AtEntry (CallDialIP 1 None [8, 8, 8, 8])],
         NewRawSocketCore 60 2)))) = [EvOpenLive ''en0'', EvOpenLive ''en0''] \<and>
   filter isInsert (trace (snd (run world0 [0, 1, 0, 1, 0, 1, 0, 1, 0, 1]
        ([AtEntry (CallDialIP 1 None [8, 8, 8, 8]), AtEntry (CallDialIP 1 None [8, 8, 8, 8])],
         NewRawSocketCore 60 2)))) = [EvInsert ''en0'' 0, EvInsert ''en0'' 1] \<and>
   length (sessions (snd (run world0 [0, 1, 0, 1, 0, 1, 0, 1, 0, 1]
        ([AtEntry (CallDialIP 1 None [8, 8, 8, 8]), AtEntry (CallDialIP 1 None [8, 8, 8, 8])],
         NewRawSocketCore 60 2)))) = 2 \<and>
   pcapSessionMap (core (snd (run world0 [0, 1, 0, 1, 0, 1, 0, 1, 0, 1]
        ([AtEntry (CallDialIP 1 None [8, 8, 8, 8]), AtEntry (CallDialIP 1 None [8, 8, 8, 8])],
         NewRawSocketCore 60 2)))) = [(''en0'', 1)] \<and>
   map returnedSession (fst (run world0 [0, 1, 0, 1, 0, 1, 0, 1, 0, 1]
        ([AtEntry (CallListenIP [192, 168, 1, 10] 1), AtEntry (CallDialIP 1 None [8, 8, 8, 8])],
         NewRawSocketCore 60 2))) = [Some 0, Some 1] \<and>
   filter isOpenLive (trace (snd (run world0 [0, 1, 0, 1, 0, 1, 0, 1, 0, 1]
        ([AtEntry (CallListenIP [192, 168, 1, 10] 1), AtEntry (CallDialIP 1 None [8, 8, 8, 8])],
         NewRawSocketCore 60 2)))) = [EvOpenLive ''en0'', EvOpenLive ''en0''] \<and>
   filter isInsert (trace (snd (run world0 [0, 1, 0, 1, 0, 1, 0, 1, 0, 1]
        ([AtEntry (CallListenIP [192, 168, 1, 10] 1), AtEntry (CallDialIP 1 None [8, 8, 8, 8])],
         NewRawSocketCore 60 2)))) = [EvInsert ''en0'' 0, EvInsert ''en0'' 1] \<and>
   length (sessions (snd (run world0 [0, 1, 0, 1, 0, 1, 0, 1, 0, 1]
        ([AtEntry (CallListenIP [192, 168, 1, 10] 1), AtEntry (CallDialIP 1 None [8, 8, 8, 8])],
         NewRawSocketCore 60 2)))) = 2 \<and>
   pcapSessionMap (core (snd (run world0 [0, 1, 0, 1, 0, 1, 0, 1, 0, 1]
        ([AtEntry (CallListenIP [192, 168, 1, 10] 1), AtEntry (CallDialIP 1 None [8, 8, 8, 8])],
         NewRawSocketCore 60 2)))) = [(''en0'', 1)]"
proof -
  have g: "map returnedSession (fst (run world0 [0, 1, 0, 1, 0, 1, 0, 1, 0, 1]
        ([AtEntry (CallDialIP 1 None [8, 8, 8, 8]), AtEntry (CallDialIP 1 None [8, 8, 8, 8])],
         NewRawSocketCore 60 2))) = [Some 0, Some 1]"
    by (simp add: eval_defs)
  have t: "trace (snd (run world0 [0, 1, 0, 1, 0, 1, 0, 1, 0, 1]
        ([AtEntry (CallDialIP 1 None [8, 8, 8, 8]), AtEntry (CallDialIP 1 None [8, 8, 8, 8])],
         NewRawSocketCore 60 2))) =
      [EvGetLocalIP [8, 8, 8, 8], EvGetLocalIP [8, 8, 8, 8],
       EvLock, EvLoad ''en0'', EvUnlock, EvLock, EvLoad ''en0'', EvUnlock,
       EvNewPcapSession ''en0'', EvOpenLive ''en0'', EvNewPcapSession ''en0'', EvOpenLive ''en0'',
       EvLock, EvInsert ''en0'' 0, EvUnlock, EvLock, EvInsert ''en0'' 1, EvUnlock,
       EvSessionDialIP 0 [192, 168, 1, 10] [8, 8, 8, 8] 1, EvResolve 0 [192, 168, 1, 1],
       EvStore 0 ([192, 168, 1, 10], Remote [8, 8, 8, 8], 1) 0,
       EvSessionDialIP 1 [192, 168, 1, 10] [8, 8, 8, 8] 1, EvResolve 1 [192, 168, 1, 1],
       EvStore 1 ([192, 168, 1, 10], Remote [8, 8, 8, 8], 1) 1]"
    by (simp add: eval_defs)
  have s: "length (sessions (snd (run world0 [0, 1, 0, 1, 0, 1, 0, 1, 0, 1]
        ([AtEntry (CallDialIP 1 None [8, 8, 8, 8]), AtEntry (CallDialIP 1 None [8, 8, 8, 8])],
         NewRawSocketCore 60 2)))) = 2"
    by (simp add: eval_defs)
  have m: "pcapSessionMap (core (snd (run world0 [0, 1, 0, 1, 0, 1, 0, 1, 0, 1]
        ([AtEntry (CallDialIP 1 None [8, 8, 8, 8]), AtEntry (CallDialIP 1 None [8, 8, 8, 8])],
         NewRawSocketCore 60 2)))) = [(''en0'', 1)]"
    by (simp add: eval_defs)
  have o: "filter isOpenLive (trace (snd (run world0 [0, 1, 0, 1, 0, 1, 0, 1, 0, 1]
        ([AtEntry (CallDialIP 1 None [8, 8, 8, 8]), AtEntry (CallDialIP 1 None [8, 8, 8, 8])],
         NewRawSocketCore 60 2)))) = [EvOpenLive ''en0'', EvOpenLive ''en0'']"
    unfolding t by simp
  have i: "filter isInsert (trace (snd (run world0 [0, 1, 0, 1, 0, 1, 0, 1, 0, 1]
        ([AtEntry (CallDialIP 1 None [8, 8, 8, 8]), AtEntry (CallDialIP 1 None [8, 8, 8, 8])],
         NewRawSocketCore 60 2)))) = [EvInsert ''en0'' 0, EvInsert ''en0'' 1]"
    unfolding t by simp
  have g': "map returnedSession (fst (run world0 [0, 1, 0, 1, 0, 1, 0, 1, 0, 1]
        ([AtEntry (CallListenIP [192, 168, 1, 10] 1), AtEntry (CallDialIP 1 None [8, 8, 8, 8])],
         NewRawSocketCore 60 2))) = [Some 0, Some 1]"
    by (simp add: eval_defs)
  have t': "trace (snd (run world0 [0, 1, 0, 1, 0, 1, 0, 1, 0, 1]
        ([AtEntry (CallListenIP [192, 168, 1, 10] 1), AtEntry (CallDialIP 1 None [8, 8, 8, 8])],
         NewRawSocketCore 60 2))) =
      [EvFindInterfaceByIP [192, 168, 1, 10], EvGetLocalIP [8, 8, 8, 8],
       EvLock, EvLoad ''en0'', EvUnlock, EvLock, EvLoad ''en0'', EvUnlock,
       EvNewPcapSession ''en0'', EvOpenLive ''en0'', EvNewPcapSession ''en0'', EvOpenLive ''en0'',
       EvLock, EvInsert ''en0'' 0, EvUnlock, EvLock, EvInsert ''en0'' 1, EvUnlock,
       EvSessionListenIP 0 [192, 168, 1, 10] 1,
       EvSessionDialIP 1 [192, 168, 1, 10] [8, 8, 8, 8] 1, EvResolve 1 [192, 168, 1, 1],
       EvStore 1 ([192, 168, 1, 10], Remote [8, 8, 8, 8], 1) 1]"
    by (simp add: eval_defs)
  have s': "length (sessions (snd (run world0 [0, 1, 0, 1, 0, 1, 0, 1, 0, 1]
        ([AtEntry (CallListenIP [192, 168, 1, 10] 1), AtEntry (CallDialIP 1 None [8, 8, 8, 8])],
         NewRawSocketCore 60 2)))) = 2"
    by (simp add: eval_defs)
  have m': "pcapSessionMap (core (snd (run world0 [0, 1, 0, 1, 0, 1, 0, 1, 0, 1]
        ([AtEntry (CallListenIP [192, 168, 1, 10] 1), AtEntry (CallDialIP 1 None [8, 8, 8, 8])],
         NewRawSocketCore 60 2)))) = [(''en0'', 1)]"
    by (simp add: eval_defs)
  have o': "filter isOpenLive (trace (snd (run world0 [0, 1, 0, 1, 0, 1, 0, 1, 0, 1]
        ([AtEntry (CallListenIP [192, 168, 1, 10] 1), AtEntry (CallDialIP 1 None [8, 8, 8, 8])],
         NewRawSocketCore 60 2)))) = [EvOpenLive ''en0'', EvOpenLive ''en0'']"
    unfolding t' by simp
  have i': "filter isInsert (trace (snd (run world0 [0, 1, 0, 1, 0, 1, 0, 1, 0, 1]
        ([AtEntry (CallListenIP [192, 168, 1, 10] 1), AtEntry (CallDialIP 1 None [8, 8, 8, 8])],
         NewRawSocketCore 60 2)))) = [EvInsert ''en0'' 0, EvInsert ''en0'' 1]"
    unfolding t' by simp
  from g o i s m g' o' i' s' m' show ?thesis by blast
qed

section \<open>A session that cannot be constructed\<close>

text \<open>
  Claim C4. When the interface has no session in the map and no capture handle can be
  opened on it, \<^verbatim>\<open>DialIP\<close> returns the error of \<^verbatim>\<open>newPcapSession\<close> and \<^verbatim>\<open>ListenIP\<close>
  returns it wrapped in its message; the core, and with it the session map, and the store
  of sessions are as before the call.
\<close>

theorem construction_failure:
  assumes "openLive w ifc = Some err"
    and "map_of (pcapSessionMap (core st)) (Name ifc) = None"
  shows "(fst (DialIP_local w srcIP dstIP st) = Inr (src, ifc, gw) \<longrightarrow>
            fst (DialIP w protocol srcIP dstIP st) = Inl err \<and>
            core (snd (DialIP w protocol srcIP dstIP st)) = core st \<and>
            sessions (snd (DialIP w protocol srcIP dstIP st)) = sessions st) \<and>
         (ifaceOfIP w ip = Inr ifc \<longrightarrow>
            fst (ListenIP w ip protocol st) =
              Inl (Errorf ''failed to create pcap session: %v'' [ArgErr err]) \<and>
            core (snd (ListenIP w ip protocol st)) = core st \<and>
            sessions (snd (ListenIP w ip protocol st)) = sessions st)"
proof (intro conjI impI)
  assume "fst (DialIP_local w srcIP dstIP st) = Inr (src, ifc, gw)"
  then have l: "localOf w srcIP dstIP = Inr (src, ifc, gw)" by (simp add: localOf_fst)
  obtain r st' where run: "DialIP w protocol srcIP dstIP st = (r, st')"
    by (cases "DialIP w protocol srcIP dstIP st")
  from run have "r = Inl err \<and> core st' = core st \<and> sessions st' = sessions st"
    using l assms by (cases rule: DialIP_cases) simp_all
  with run show "fst (DialIP w protocol srcIP dstIP st) = Inl err"
    "core (snd (DialIP w protocol srcIP dstIP st)) = core st"
    "sessions (snd (DialIP w protocol srcIP dstIP st)) = sessions st"
    by simp_all
next
  assume l: "ifaceOfIP w ip = Inr ifc"
  obtain r st' where run: "ListenIP w ip protocol st = (r, st')"
    by (cases "ListenIP w ip protocol st")
  from run have "r = Inl (Errorf ''failed to create pcap session: %v'' [ArgErr err]) \<and>
      core st' = core st \<and> sessions st' = sessions st"
    using l assms by (cases rule: ListenIP_cases) simp_all
  with run show "fst (ListenIP w ip protocol st) =
              Inl (Errorf ''failed to create pcap session: %v'' [ArgErr err])"
    "core (snd (ListenIP w ip protocol st)) = core st"
    "sessions (snd (ListenIP w ip protocol st)) = sessions st"
    by simp_all
qed

theorem construction_failure_witness:
  "openLive world0 en1 = Some (Error ''pcap: no such device'') \<and>
   map_of (pcapSessionMap (core (NewRawSocketCore 60 2))) (Name en1) = None \<and>
   fst (DialIP_local world0 None [10, 0, 0, 7] (NewRawSocketCore 60 2)) =
     Inr ([10, 0, 0, 5], en1, None) \<and>
   ifaceOfIP world0 [10, 0, 0, 5] = Inr en1 \<and>
   fst (DialIP world0 1 None [10, 0, 0, 7] (NewRawSocketCore 60 2)) =
     Inl (Error ''pcap: no such device'') \<and>
   core (snd (DialIP world0 1 None [10, 0, 0, 7] (NewRawSocketCore 60 2))) =
     core (NewRawSocketCore 60 2) \<and>
   fst (ListenIP world0 [10, 0, 0, 5] 1 (NewRawSocketCore 60 2)) =
     Inl (Errorf ''failed to create pcap session: %v'' [ArgErr (Error ''pcap: no such device'')]) \<and>
   core (snd (ListenIP world0 [10, 0, 0, 5] 1 (NewRawSocketCore 60 2))) =
     core (NewRawSocketCore 60 2)"
proof -
  have o: "openLive world0 en1 = Some (Error ''pcap: no such device'')"
    by (simp add: world0_def en1_def)
  have m: "map_of (pcapSessionMap (core (NewRawSocketCore 60 2))) (Name en1) = None"
    by (simp add: NewRawSocketCore_def)
  have l: "fst (DialIP_local world0 None [10, 0, 0, 7] (NewRawSocketCore 60 2)) =
     Inr ([10, 0, 0, 5], en1, None)"
    by (simp add: DialIP_local_def GetLocalIP_def world0_def)
  have i: "ifaceOfIP world0 [10, 0, 0, 5] = Inr en1"
    by (simp add: world0_def)
  from construction_failure [OF o m, where srcIP = None and dstIP = "[10, 0, 0, 7]"
      and src = "[10, 0, 0, 5]" and gw = None and ip = "[10, 0, 0, 5]" and protocol = 1]
    o m l i
  show ?thesis by simp
qed

section \<open>A source address that is not local\<close>

text \<open>
  Claim C9. When the source address that was given belongs to no local interface,
  \<^verbatim>\<open>DialIP\<close> returns the error of line 63, which says that the address is not a local
  address and carries the lookup's error; the state is as before but for the record of
  the lookup, so no session and no flow was created. The route resolver is called once
  when the source address is absent and not at all when it is given.
\<close>

theorem not_local_source:
  "(ifaceOfIP w src = Inl err \<longrightarrow>
      DialIP w protocol (Some src) dstIP st =
        (Inl (Errorf ''provided srcIP %v is not a local IP: %v'' [ArgIP src, ArgErr err]),
         emit (EvFindInterfaceByIP src) st)) \<and>
   filter isGetLocalIP (added st (snd (DialIP w protocol srcIP dstIP st))) =
     (case srcIP of None \<Rightarrow> [EvGetLocalIP dstIP] | Some s \<Rightarrow> [])"
proof (intro conjI impI)
  assume "ifaceOfIP w src = Inl err"
  then show "DialIP w protocol (Some src) dstIP st =
        (Inl (Errorf ''provided srcIP %v is not a local IP: %v'' [ArgIP src, ArgErr err]),
         emit (EvFindInterfaceByIP src) st)"
    by (simp add: DialIP_def DialIP_local_def findInterfaceByIP_def)
next
  show "filter isGetLocalIP (added st (snd (DialIP w protocol srcIP dstIP st))) =
     (case srcIP of None \<Rightarrow> [EvGetLocalIP dstIP] | Some s \<Rightarrow> [])"
    using DialIP_route_queries [of w protocol srcIP dstIP st] by (cases "DialIP w protocol srcIP dstIP st") simp
qed

theorem not_local_source_witness:
  "ifaceOfIP world0 [172, 16, 0, 9] = Inl (Error ''no interface with this address'') \<and>
   DialIP world0 1 (Some [172, 16, 0, 9]) [8, 8, 8, 8] (NewRawSocketCore 60 2) =
     (Inl (Errorf ''provided srcIP %v is not a local IP: %v''
             [ArgIP [172, 16, 0, 9], ArgErr (Error ''no interface with this address'')]),
      emit (EvFindInterfaceByIP [172, 16, 0, 9]) (NewRawSocketCore 60 2)) \<and>
   filter isGetLocalIP (added (NewRawSocketCore 60 2)
      (snd (DialIP world0 1 (Some [172, 16, 0, 9]) [8, 8, 8, 8] (NewRawSocketCore 60 2)))) = []"
proof -
  have i: "ifaceOfIP world0 [172, 16, 0, 9] = Inl (Error ''no interface with this address'')"
    by (simp add: world0_def)
  from not_local_source [where w = world0 and src = "[172, 16, 0, 9]"
      and err = "Error ''no interface with this address''" and protocol = 1
      and dstIP = "[8, 8, 8, 8]" and st = "NewRawSocketCore 60 2"
      and srcIP = "Some [172, 16, 0, 9]"] i
  show ?thesis by simp
qed

section \<open>Shutdown\<close>

text \<open>
  Claim C5. \<^verbatim>\<open>Close\<close> is idempotent: after a first call that has returned, a second
  call returns as well (no panic, no blocking) and leaves the whole state as it is: no
  channel is closed again, no session is closed again, nothing is added to the trace.
\<close>

theorem Close_idempotent:
  assumes "Close w st = Inr st'"
  shows "Close w st' = Inr st'"
  using Close_sets_isClosed [OF assms] by (simp add: Close_def)

theorem Close_idempotent_witness:
  "\<exists>st'. Close world0 (snd (ListenIP world0 [192, 168, 1, 10] 1 (NewRawSocketCore 60 2))) = Inr st' \<and>
         Close world0 st' = Inr st'"
proof -
  have "\<exists>st'. Close world0 (snd (ListenIP world0 [192, 168, 1, 10] 1 (NewRawSocketCore 60 2))) = Inr st'"
    by (simp add: eval_defs)
  then obtain st' where
    c: "Close world0 (snd (ListenIP world0 [192, 168, 1, 10] 1 (NewRawSocketCore 60 2))) = Inr st'" ..
  from c Close_idempotent [OF c] show ?thesis by blast
qed

text \<open>
  Claim C6. On a well-formed core that has not been shut down, \<^verbatim>\<open>Close\<close> returns, and
  what it did is, in this order: take the lock, collect the sessions of the map in the
  order in which the loop visits them, release the lock; close each collected session, in
  that order, the lock not held; close the stop channel; wait for the reaper; close the
  close-signal channel; release the resolution cache, last. The collected sessions are
  the sessions of the map, whatever the order of the loop. At the end each of them is
  closed and the reaper has returned. The wait is a wait: on a core whose wait group
  counts more than the reaper, \<^verbatim>\<open>Close\<close> stays suspended in it.
\<close>

theorem Close_order:
  assumes "wellformed st"
    and "mset (rangeOrder w (pcapSessionMap (core st))) = mset (pcapSessionMap (core st))"
    and "\<not> isClosed (core st)" and "stopChan (core st) = ChanOpen"
    and "pcapSessionCloseSig (core st) = ChanOpen"
  shows "(wg (core st) = 1 \<longrightarrow>
           (\<exists>st'. Close w st = Inr st' \<and>
              added st st' =
                [EvLock, EvRange (snapshot w st), EvUnlock] @ map EvSessionClose (snapshot w st) @
                [EvCloseStopChan, EvWait, EvCloseSessionCloseSig, EvARPCacheClose] \<and>
              mset (snapshot w st) = mset (map snd (pcapSessionMap (core st))) \<and>
              list_all (\<lambda>a. sessClosed (sessions st' ! a)) (snapshot w st) \<and>
              stopChan (core st') = ChanClosed \<and> wg (core st') = 0 \<and>
              cacheClosed (arpCache (core st')))) \<and>
         (1 < wg (core st) \<longrightarrow> Close w st = Inl Blocked)"
proof -
  let ?st0 = "emits [EvLock, EvRange (snapshot w st), EvUnlock] (st\<lparr>core := (core st)\<lparr>isClosed := True\<rparr>\<rparr>)"
  have p1: "list_all (\<lambda>a. a < length (sessions ?st0)) (snapshot w st)"
    using wf_snapshot [OF assms(1,2)] by simp
  have p2: "stopChan (core ?st0) = ChanOpen" and p3: "pcapSessionCloseSig (core ?st0) = ChanOpen"
    using assms(4,5) by simp_all
  from closeSessions_ok [OF p1 p2 p3] obtain st1 where
    c: "closeSessions (snapshot w st) ?st0 = Inr st1" and
    cl: "list_all (\<lambda>a. sessClosed (sessions st1 ! a)) (snapshot w st)"
    by auto
  from closeSessions_Inr [OF c] assms(4,5) have
    f: "stopChan (core st1) = ChanOpen" "pcapSessionCloseSig (core st1) = ChanOpen"
       "wg (core st1) = wg (core st)"
       "trace st1 = trace st @ [EvLock, EvRange (snapshot w st), EvUnlock] @ map EvSessionClose (snapshot w st)"
    by simp_all
  note m = snapshot_mset [OF assms(2)]
  show ?thesis
    using assms(3) c cl f m
    by (simp add: Close_def closeStopChan_def reaperReturns_def wgWait_def closeCloseSig_def
        arpCacheClose_def handlePcapSessionClose_def added_def emit_def)
qed

theorem Close_order_witness:
  "wellformed (snd (ListenIP world0 [127, 0, 0, 1] 1
      (snd (ListenIP world0 [192, 168, 1, 10] 1 (NewRawSocketCore 60 2))))) \<and>
   pcapSessionMap (core (snd (ListenIP world0 [127, 0, 0, 1] 1
      (snd (ListenIP world0 [192, 168, 1, 10] 1 (NewRawSocketCore 60 2)))))) =
     [(''en0'', 0), (''lo0'', 1)] \<and>
   snapshot world0 (snd (ListenIP world0 [127, 0, 0, 1] 1
      (snd (ListenIP world0 [192, 168, 1, 10] 1 (NewRawSocketCore 60 2))))) = [1, 0] \<and>
   (\<exists>st'. Close world0 (snd (ListenIP world0 [127, 0, 0, 1] 1
             (snd (ListenIP world0 [192, 168, 1, 10] 1 (NewRawSocketCore 60 2))))) = Inr st' \<and>
      added (snd (ListenIP world0 [127, 0, 0, 1] 1
             (snd (ListenIP world0 [192, 168, 1, 10] 1 (NewRawSocketCore 60 2))))) st' =
        [EvLock, EvRange [1, 0], EvUnlock, EvSessionClose 1, EvSessionClose 0,
         EvCloseStopChan, EvWait, EvCloseSessionCloseSig, EvARPCacheClose] \<and>
      sessClosed (sessions st' ! 0) \<and> sessClosed (sessions st' ! 1) \<and>
      wg (core st') = 0 \<and> cacheClosed (arpCache (core st'))) \<and>
   Close world0 ((NewRawSocketCore 60 2)\<lparr>core := (core (NewRawSocketCore 60 2))\<lparr>wg := 2\<rparr>\<rparr>) =
     Inl Blocked"
proof -
  let ?st = "snd (ListenIP world0 [127, 0, 0, 1] 1
      (snd (ListenIP world0 [192, 168, 1, 10] 1 (NewRawSocketCore 60 2))))"
  let ?st2 = "(NewRawSocketCore 60 2)\<lparr>core := (core (NewRawSocketCore 60 2))\<lparr>wg := 2\<rparr>\<rparr>"
  have c: "core ?st =
     \<lparr>pcapSessionMap = [(''en0'', 0), (''lo0'', 1)], arpCacheTimeout = 60000000000,
      arpRequestTimeout = 2000000000, pcapSessionCloseSig = ChanOpen,
      arpCache = \<lparr>cacheTimeout = 60000000000, cacheClosed = False\<rparr>,
      stopChan = ChanOpen, wg = 1, isClosed = False\<rparr>"
    by (simp add: eval_defs)
  have w: "wellformed ?st" by (simp add: wellformed_def eval_defs)
  have s: "snapshot world0 ?st = [1, 0]" unfolding snapshot_def c by (simp add: world0_def)
  have o: "mset (rangeOrder world0 (pcapSessionMap (core ?st))) = mset (pcapSessionMap (core ?st))"
    by (simp add: world0_def)
  have w2: "wellformed ?st2" by (simp add: wellformed_def NewRawSocketCore_def)
  have o2: "mset (rangeOrder world0 (pcapSessionMap (core ?st2))) = mset (pcapSessionMap (core ?st2))"
    by (simp add: world0_def)
  have b: "Close world0 ?st2 = Inl Blocked"
    using Close_order [OF w2 o2] by (simp add: NewRawSocketCore_def)
  have "\<exists>st'. Close world0 ?st = Inr st' \<and>
      added ?st st' =
        [EvLock, EvRange [1, 0], EvUnlock, EvSessionClose 1, EvSessionClose 0,
         EvCloseStopChan, EvWait, EvCloseSessionCloseSig, EvARPCacheClose] \<and>
      sessClosed (sessions st' ! 0) \<and> sessClosed (sessions st' ! 1) \<and>
      wg (core st') = 0 \<and> cacheClosed (arpCache (core st'))"
    using Close_order [OF w o] unfolding s by (auto simp: c)
  with w s b c show ?thesis by simp
qed

end
